theory Spec2Isabelle
  imports Main
begin

section \<open>JavaScript values and objects\<close>

text \<open>
  The client (\<^verbatim>\<open>src/shared/clients/cawsClient.ts\<close>) handles the summaries and
  workspaces of the remote service as plain JavaScript objects that it copies with the
  spread operator. An object is an association list from property names to values; the
  first binding of a name is the one a lookup sees. The properties that an object literal
  of the source writes out have distinct names and stand in the source's order; a spread
  puts the properties of the overriding object in front.
\<close>

datatype jsval =
    JUndefined
  | JNull
  | JStr string
  | JObj "(string \<times> jsval) list"

type_synonym obj = "(string \<times> jsval) list"

text \<open>\<^verbatim>\<open>o.k\<close>: reading a property that the object does not have gives \<^verbatim>\<open>undefined\<close>.\<close>

definition getProp :: "obj \<Rightarrow> string \<Rightarrow> jsval" where
  "getProp ob k = (case map_of ob k of None \<Rightarrow> JUndefined | Some v \<Rightarrow> v)"

text \<open>\<^verbatim>\<open>{ ...a, ...b }\<close>: the properties of \<open>b\<close> override those of \<open>a\<close>.\<close>

definition spread :: "obj \<Rightarrow> obj \<Rightarrow> obj" where
  "spread a b = b @ a"

text \<open>\<^verbatim>\<open>delete o[k]\<close>.\<close>

definition deleteProp :: "string \<Rightarrow> obj \<Rightarrow> obj" where
  "deleteProp k ob = filter (\<lambda>p. fst p \<noteq> k) ob"

text \<open>\<^verbatim>\<open>v ?? d\<close>.\<close>

fun nullish :: "jsval \<Rightarrow> bool" where
  "nullish JUndefined = True"
| "nullish JNull = True"
| "nullish (JStr s) = False"
| "nullish (JObj ob) = False"

definition coalesce :: "jsval \<Rightarrow> jsval \<Rightarrow> jsval" where
  "coalesce v d = (if nullish v then d else v)"

text \<open>\<^verbatim>\<open>v === 'literal'\<close>.\<close>

fun isStr :: "jsval \<Rightarrow> string \<Rightarrow> bool" where
  "isStr (JStr s) t = (s = t)"
| "isStr JUndefined t = False"
| "isStr JNull t = False"
| "isStr (JObj ob) t = False"

text \<open>
  What \<^verbatim>\<open>localize\<close> of the library \<^verbatim>\<open>vscode-nls\<close> writes for the argument of the placeholder
  \<^verbatim>\<open>{0}\<close>: a string as it is, \<^verbatim>\<open>undefined\<close> and \<^verbatim>\<open>null\<close> by their names, and for any other
  value the placeholder is left in the message.
\<close>

fun localizeArg :: "jsval \<Rightarrow> string" where
  "localizeArg (JStr s) = s"
| "localizeArg JUndefined = ''undefined''"
| "localizeArg JNull = ''null''"
| "localizeArg (JObj ob) = ''{0}''"

text \<open>Truthiness of a \<^verbatim>\<open>string | undefined\<close>: the empty string is falsy.\<close>

fun truthy :: "string option \<Rightarrow> bool" where
  "truthy None = False"
| "truthy (Some s) = (s \<noteq> [])"

section \<open>The remote service and the editor, as the client sees them\<close>

type_synonym aws_error = string

datatype error =
    Remote aws_error         \<comment> \<open>the \<^verbatim>\<open>AWSError\<close> a request was rejected with\<close>
  | NoDefault                \<comment> \<open>\<^verbatim>\<open>Error()\<close> of \<^verbatim>\<open>call\<close>\<close>
  | MissingProps "string list"  \<comment> \<open>the validation error of \<^verbatim>\<open>assertHasProps\<close>\<close>
  | CannotReadProperty string   \<comment> \<open>\<^verbatim>\<open>TypeError\<close>: a property read of \<^verbatim>\<open>undefined\<close> or \<^verbatim>\<open>null\<close>\<close>
  | IdentityMismatch         \<comment> \<open>\<^verbatim>\<open>CAWS identity does not match the one provided by the client\<close>\<close>
  | UnsupportedVersion "string option"
  | NotConnected             \<comment> \<open>\<^verbatim>\<open>CAWS client is not connected\<close>\<close>
  | BranchesNotSupported     \<comment> \<open>\<^verbatim>\<open>Listing branches is not currently supported\<close>\<close>
  | FailedToStart            \<comment> \<open>\<^verbatim>\<open>Evironment failed to start\<close>\<close>

datatype operation =
    VerifySession
  | GetUserDetails
  | ListOrganizations
  | ListProjects
  | ListSourceRepositories
  | ListDevelopmentWorkspace
  | GetDevelopmentWorkspace
  | StartDevelopmentWorkspace

datatype event =
    Call operation           \<comment> \<open>a request sent to the service\<close>
  | ShowMessageWithCancel string
  | Report string            \<comment> \<open>\<^verbatim>\<open>progress.report\<close>\<close>
  | ShowErrorMessage string  \<comment> \<open>\<^verbatim>\<open>vscode.window.showErrorMessage\<close>\<close>

record verify_session_response =
  identity :: "string option"

record user_details_response =
  respUserId :: "string option"
  respUserName :: "string option"
  respDisplayName :: "string option"
  respPrimaryEmail :: "string option"
  respVersion :: "string option"

record 'i page =
  items :: 'i
  nextToken :: "string option"

text \<open>
  The service is a script: for every operation, what it answers to the \<open>k\<close>-th request of
  that operation, given the request's parameters. A request is either rejected with an
  \<^verbatim>\<open>AWSError\<close> or answered. The summaries of organizations, projects and repositories
  come in a list that a response may omit; the list of workspaces is always there.
\<close>

record remote =
  verifySessionR :: "nat \<Rightarrow> obj \<Rightarrow> aws_error + verify_session_response"
  getUserDetailsR :: "nat \<Rightarrow> obj \<Rightarrow> aws_error + user_details_response"
  listOrganizationsR :: "nat \<Rightarrow> obj \<Rightarrow> aws_error + (obj list option) page"
  listProjectsR :: "nat \<Rightarrow> obj \<Rightarrow> aws_error + (obj list option) page"
  listSourceRepositoriesR :: "nat \<Rightarrow> obj \<Rightarrow> aws_error + (obj list option) page"
  listDevelopmentWorkspaceR :: "nat \<Rightarrow> obj \<Rightarrow> aws_error + (obj list) page"
  getDevelopmentWorkspaceR :: "nat \<Rightarrow> obj \<Rightarrow> aws_error + obj"
  startDevelopmentWorkspaceR :: "nat \<Rightarrow> obj \<Rightarrow> aws_error + obj"

text \<open>
  The world outside the client: the service, the clock of the polling loop (one tick per
  polling interval) and everything the client has done so far, in order.
\<close>

record world =
  remote :: remote
  now :: nat
  trace :: "event list"

definition emit :: "event \<Rightarrow> world \<Rightarrow> world" where
  "emit e w = w\<lparr>trace := trace w @ [e]\<rparr>"

definition ncalls :: "operation \<Rightarrow> world \<Rightarrow> nat" where
  "ncalls opn w = count_list (trace w) (Call opn)"

text \<open>
  \<^verbatim>\<open>this.sdkClient.op(params)\<close> builds a request: the operation, the part of the service
  that answers it, and the parameters.
\<close>

type_synonym 'r request = "operation \<times> (remote \<Rightarrow> nat \<Rightarrow> obj \<Rightarrow> aws_error + 'r) \<times> obj"

text \<open>
  \<^verbatim>\<open>call(req, silent, defaultVal)\<close> sends the request. A rejected request is raised unless
  \<open>silent\<close>, in which case the default value stands in for the response. The overloads of
  the source allow a silent call only with a default, and no caller makes one without:
  there the callback throws \<^verbatim>\<open>Error()\<close>, which is the error \<open>NoDefault\<close> here, although in the
  source that throw, inside the callback of \<^verbatim>\<open>send\<close>, leaves the promise unsettled. (The log
  lines of \<^verbatim>\<open>call\<close> are left out.)
\<close>

definition call :: "'r request \<Rightarrow> bool \<Rightarrow> 'r option \<Rightarrow> world \<Rightarrow> (error + 'r) \<times> world" where
  "call req silent defaultVal w =
     (case req of (opn, send, params) \<Rightarrow>
        (case send (remote w) (ncalls opn w) params of
           Inl e \<Rightarrow>
             (if silent
              then (case defaultVal of
                      None \<Rightarrow> (Inl NoDefault, emit (Call opn) w)
                    | Some d \<Rightarrow> (Inr d, emit (Call opn) w))
              else (Inl (Remote e), emit (Call opn) w))
         | Inr data \<Rightarrow> (Inr data, emit (Call opn) w)))"

text \<open>
  Modelled from the spec: \<^verbatim>\<open>assertHasProps\<close> (\<^verbatim>\<open>utilities/tsUtils\<close>) is not among the
  sources. The spec: a required response field that is absent is a validation error,
  which always fails fast.
\<close>

definition assertHasProps :: "(string \<times> 'a option) list \<Rightarrow> error + unit" where
  "assertHasProps props =
     (let missing = map fst (filter (\<lambda>p. snd p = None) props)
      in if missing = [] then Inr () else Inl (MissingProps missing))"

section \<open>The session\<close>

record sdk =
  sdkRegion :: string
  sdkEndpoint :: string
  authorization :: "string option"

definition createCawsClient :: "string option \<Rightarrow> string \<Rightarrow> string \<Rightarrow> sdk" where
  "createCawsClient bearerToken regionCode endpoint =
     \<lparr>sdkRegion = regionCode, sdkEndpoint = endpoint,
      authorization = (if truthy bearerToken
                       then (case bearerToken of None \<Rightarrow> None | Some t \<Rightarrow> Some (''Bearer '' @ t))
                       else None)\<rparr>"

record user_details =
  udUserId :: string
  udUserName :: string
  udDisplayName :: string
  udPrimaryEmail :: string
  udVersion :: string

text \<open>The fields of \<^verbatim>\<open>CawsClientInternal\<close>.\<close>

record client =
  regionCode :: string
  endpoint :: string
  sdkClient :: sdk
  bearerToken :: "string option"
  userId :: "string option"
  userDetails :: "user_details option"

definition connected :: "client \<Rightarrow> bool" where
  "connected c = (truthy (bearerToken c) \<and> userDetails c \<noteq> None)"

definition clientIdentity :: "client \<Rightarrow> error + (string \<times> string)" where
  "clientIdentity c =
     (case userDetails c of
        None \<Rightarrow> Inl NotConnected
      | Some d \<Rightarrow> Inr (udUserId d, udUserName d))"

definition token :: "client \<Rightarrow> error + string" where
  "token c =
     (if \<not> connected c then Inl NotConnected
      else (case bearerToken c of None \<Rightarrow> Inl NotConnected | Some t \<Rightarrow> Inr t))"

text \<open>The second argument of \<^verbatim>\<open>setCredentials\<close>: \<^verbatim>\<open>id?: string | UserDetails\<close>.\<close>

datatype id_arg = IdString string | IdDetails user_details | IdUndefined

definition setCredentials :: "client \<Rightarrow> string \<Rightarrow> id_arg \<Rightarrow> client" where
  "setCredentials c tok idv =
     (let c1 = c\<lparr>bearerToken := Some tok,
                 sdkClient := createCawsClient (Some tok) (regionCode c) (endpoint c)\<rparr>
      in case idv of
           IdString s \<Rightarrow> c1\<lparr>userId := Some s\<rparr>
         | IdDetails d \<Rightarrow> c1\<lparr>userDetails := Some d\<rparr>
         | IdUndefined \<Rightarrow> c1\<lparr>userDetails := None\<rparr>)"

definition getUserDetails :: "obj \<Rightarrow> world \<Rightarrow> (error + user_details) \<times> world" where
  "getUserDetails args w =
     (case call (GetUserDetails, getUserDetailsR, args) False None w of
        (Inl e, w1) \<Rightarrow> (Inl e, w1)
      | (Inr resp, w1) \<Rightarrow>
          (case assertHasProps [(''userId'', respUserId resp), (''userName'', respUserName resp),
                  (''displayName'', respDisplayName resp), (''primaryEmail'', respPrimaryEmail resp)] of
             Inl e \<Rightarrow> (Inl e, w1)
           | Inr u \<Rightarrow>
               (if respVersion resp \<noteq> Some ''1'' then (Inl (UnsupportedVersion (respVersion resp)), w1)
                else
                  (case (respUserId resp, respUserName resp, respDisplayName resp, respPrimaryEmail resp) of
                     (Some i, Some n, Some d, Some m) \<Rightarrow>
                       (Inr \<lparr>udUserId = i, udUserName = n, udDisplayName = d,
                             udPrimaryEmail = m, udVersion = ''1''\<rparr>, w1)
                   | other \<Rightarrow> (Inl (MissingProps []), w1)))))"

text \<open>
  \<^verbatim>\<open>verifySession\<close>. The guard \<^verbatim>\<open>this.userId && this.userId !== resp.identity\<close> tests the
  stored id for truthiness, and \<^verbatim>\<open>??=\<close> fetches the details only when none are stored.
  An exception leaves the fields as they were when it was thrown.
\<close>

definition verifySession :: "client \<Rightarrow> world \<Rightarrow> (error + user_details) \<times> client \<times> world" where
  "verifySession c w =
     (case call (VerifySession, verifySessionR, []) False None w of
        (Inl e, w1) \<Rightarrow> (Inl e, c, w1)
      | (Inr resp, w1) \<Rightarrow>
          (case assertHasProps [(''identity'', identity resp)] of
             Inl e \<Rightarrow> (Inl e, c, w1)
           | Inr u \<Rightarrow>
               (case identity resp of
                  None \<Rightarrow> (Inl (MissingProps [''identity'']), c, w1)
                | Some i \<Rightarrow>
                    (if truthy (userId c) \<and> userId c \<noteq> Some i then (Inl IdentityMismatch, c, w1)
                     else
                       (let c1 = c\<lparr>userId := Some i\<rparr>
                        in case userDetails c1 of
                             Some d \<Rightarrow> (Inr d, c1, w1)
                           | None \<Rightarrow>
                               (case getUserDetails [(''id'', JStr i)] w1 of
                                  (Inl e, w2) \<Rightarrow> (Inl e, c1, w2)
                                | (Inr d, w2) \<Rightarrow> (Inr d, c1\<lparr>userDetails := Some d\<rparr>, w2)))))))"

section \<open>Listing\<close>

text \<open>
  A lazy sequence of batches is run by a consumer that pulls at most \<open>n\<close> pages from any
  one paginated listing. A run gives the batches the consumer received, in order, and
  how the sequence ended: it finished, it raised an exception into the consumer, or
  pages were left after \<open>n\<close>.
\<close>

datatype ending = Finished | Raised error | Unfinished

type_synonym 'a collection = "nat \<Rightarrow> world \<Rightarrow> ('a list \<times> ending) \<times> world"

text \<open>
  Modelled from the spec: \<^verbatim>\<open>pageableToCollection\<close> (\<^verbatim>\<open>utilities/collectionUtils\<close>) is not
  among the sources. The spec: given a page-fetch function and an initial request, it
  produces one batch per page, the pages fetched strictly one at a time, each request
  carrying the continuation token of the page before, and the sequence is finite once a
  fetched page omits the continuation token. The callers name the continuation field
  \<^verbatim>\<open>nextToken\<close> and the items field \<^verbatim>\<open>items\<close>.
\<close>

fun pageableToCollection ::
  "(obj \<Rightarrow> world \<Rightarrow> (error + 'i page) \<times> world) \<Rightarrow> obj \<Rightarrow> nat \<Rightarrow> world \<Rightarrow> ('i list \<times> ending) \<times> world"
where
  "pageableToCollection requester request 0 w = (([], Unfinished), w)"
| "pageableToCollection requester request (Suc n) w =
     (case requester request w of
        (Inl e, w1) \<Rightarrow> (([], Raised e), w1)
      | (Inr response, w1) \<Rightarrow>
          (case nextToken response of
             None \<Rightarrow> (([items response], Finished), w1)
           | Some t \<Rightarrow>
               (case pageableToCollection requester (spread request [(''nextToken'', JStr t)]) n w1 of
                  ((batches, en), w2) \<Rightarrow> ((items response # batches, en), w2))))"

text \<open>
  Modelled from the spec: \<^verbatim>\<open>AsyncCollection.map\<close> (\<^verbatim>\<open>utilities/asyncCollection\<close>) is not
  among the sources. The spec: the sequence of the paginator, post-processed batch by batch.
\<close>

definition collection_map :: "('a \<Rightarrow> 'b) \<Rightarrow> 'a collection \<Rightarrow> 'b collection" where
  "collection_map f collection =
     (\<lambda>n w. case collection n w of ((batches, en), w1) \<Rightarrow> ((map f batches, en), w1))"

definition asCawsOrg :: "obj \<Rightarrow> obj" where
  "asCawsOrg org =
     spread [(''id'', JStr []), (''type'', JStr ''org''),
             (''name'', coalesce (getProp org ''name'') (JStr ''unknown''))] org"

definition listOrgs :: "obj \<Rightarrow> (obj list) collection" where
  "listOrgs request =
     collection_map (\<lambda>summaries. case summaries of None \<Rightarrow> [] | Some xs \<Rightarrow> map asCawsOrg xs)
       (pageableToCollection
          (\<lambda>request. call (ListOrganizations, listOrganizationsR, request) True
                        (Some \<lparr>items = Some [], nextToken = None\<rparr>))
          request)"

text \<open>The function that \<^verbatim>\<open>listProjects\<close> maps over the summaries of a page.\<close>

definition asCawsProject :: "obj \<Rightarrow> obj \<Rightarrow> obj" where
  "asCawsProject request s =
     spread [(''type'', JStr ''project''), (''id'', JStr []),
             (''org'', JObj [(''name'', getProp request ''organizationName'')]),
             (''name'', coalesce (getProp s ''name'') (JStr ''unknown''))] s"

definition listProjects :: "obj \<Rightarrow> (obj list) collection" where
  "listProjects request =
     collection_map (\<lambda>summaries. case summaries of None \<Rightarrow> [] | Some xs \<Rightarrow> map (asCawsProject request) xs)
       (pageableToCollection
          (\<lambda>request. call (ListProjects, listProjectsR, request) True
                        (Some \<lparr>items = Some [], nextToken = None\<rparr>))
          request)"

definition intoDevelopmentWorkspace :: "jsval \<Rightarrow> jsval \<Rightarrow> obj \<Rightarrow> obj" where
  "intoDevelopmentWorkspace organizationName projectName summary =
     spread [(''type'', JStr ''env''), (''org'', JObj [(''name'', organizationName)]),
             (''project'', JObj [(''name'', projectName)])] summary"

text \<open>\<^verbatim>\<open>v.k\<close> on a value: reading a property of \<^verbatim>\<open>undefined\<close> or \<^verbatim>\<open>null\<close> throws.\<close>

fun readMember :: "jsval \<Rightarrow> string \<Rightarrow> error + jsval" where
  "readMember (JObj ob) k = Inr (getProp ob k)"
| "readMember (JStr s) k = Inr JUndefined"
| "readMember JUndefined k = Inl (CannotReadProperty k)"
| "readMember JNull k = Inl (CannotReadProperty k)"

definition listDevEnvs :: "obj \<Rightarrow> error + (obj list) collection" where
  "listDevEnvs proj =
     (case readMember (getProp proj ''org'') ''name'' of
        Inl e \<Rightarrow> Inl e
      | Inr orgName \<Rightarrow>
          Inr (collection_map (\<lambda>envs. map (intoDevelopmentWorkspace orgName (getProp proj ''name'')) envs)
                 (pageableToCollection
                    (\<lambda>request. call (ListDevelopmentWorkspace, listDevelopmentWorkspaceR, request) True
                                  (Some \<lparr>items = [], nextToken = None\<rparr>))
                    [(''organizationName'', orgName), (''projectName'', getProp proj ''name'')])))"

text \<open>The function that \<^verbatim>\<open>listRepos\<close> maps over the summaries of a page.\<close>

definition asCawsRepo :: "obj \<Rightarrow> obj \<Rightarrow> obj" where
  "asCawsRepo request s =
     spread [(''type'', JStr ''repo''), (''id'', JStr []),
             (''org'', JObj [(''name'', getProp request ''organizationName'')]),
             (''project'', JObj [(''name'', getProp request ''projectName'')]),
             (''name'', coalesce (getProp s ''name'') (JStr ''unknown''))] s"

definition listRepos :: "obj \<Rightarrow> (obj list) collection" where
  "listRepos request =
     collection_map (\<lambda>summaries. case summaries of None \<Rightarrow> [] | Some xs \<Rightarrow> map (asCawsRepo request) xs)
       (pageableToCollection
          (\<lambda>request. call (ListSourceRepositories, listSourceRepositoriesR, request) True
                        (Some \<lparr>items = Some [], nextToken = None\<rparr>))
          request)"

text \<open>
  \<^verbatim>\<open>mapInner\<close> of \<^verbatim>\<open>listResources\<close>. It awaits all batches of the outer sequence, and then,
  batch by batch, drains the inner sequence of every element and yields what each one
  gave as one batch. \<^verbatim>\<open>Promise.all\<close> starts the inner sequences of a batch together; here
  they run one after the other, in the order of the elements.
\<close>

fun drainAll ::
  "('t \<Rightarrow> error + ('u list) collection) \<Rightarrow> 't list \<Rightarrow> nat \<Rightarrow> world \<Rightarrow> ('u list list \<times> ending) \<times> world"
where
  "drainAll fn [] n w = (([], Finished), w)"
| "drainAll fn (e # es) n w =
     (case fn e of
        Inl err \<Rightarrow> (([], Raised err), w)
      | Inr inner \<Rightarrow>
          (case inner n w of
             ((batches, Finished), w1) \<Rightarrow>
               (case drainAll fn es n w1 of
                  ((rest, en), w2) \<Rightarrow> ((concat batches # rest, en), w2))
           | ((batches, Raised err), w1) \<Rightarrow> (([], Raised err), w1)
           | ((batches, Unfinished), w1) \<Rightarrow> (([], Unfinished), w1)))"

fun mapInnerLoop ::
  "('t \<Rightarrow> error + ('u list) collection) \<Rightarrow> 't list list \<Rightarrow> nat \<Rightarrow> world \<Rightarrow> ('u list list \<times> ending) \<times> world"
where
  "mapInnerLoop fn [] n w = (([], Finished), w)"
| "mapInnerLoop fn (element # elements) n w =
     (case drainAll fn element n w of
        ((yielded, Finished), w1) \<Rightarrow>
          (case mapInnerLoop fn elements n w1 of
             ((rest, en), w2) \<Rightarrow> ((yielded @ rest, en), w2))
      | ((yielded, Raised err), w1) \<Rightarrow> (([], Raised err), w1)
      | ((yielded, Unfinished), w1) \<Rightarrow> (([], Unfinished), w1))"

definition mapInner ::
  "('t list) collection \<Rightarrow> ('t \<Rightarrow> error + ('u list) collection) \<Rightarrow> ('u list) collection"
where
  "mapInner collection fn =
     (\<lambda>n w. case collection n w of
               ((elements, Finished), w1) \<Rightarrow> mapInnerLoop fn elements n w1
             | ((elements, Raised err), w1) \<Rightarrow> (([], Raised err), w1)
             | ((elements, Unfinished), w1) \<Rightarrow> (([], Unfinished), w1))"

datatype resource_type = Org | Project | Repo | Branch | Env

fun rank :: "resource_type \<Rightarrow> nat" where
  "rank Org = 0"
| "rank Project = 1"
| "rank Repo = 2"
| "rank Branch = 2"
| "rank Env = 2"

function listResources :: "resource_type \<Rightarrow> error + (obj list) collection" where
  "listResources Org = Inr (listOrgs [])"
| "listResources Project =
     (case listResources Org of
        Inl e \<Rightarrow> Inl e
      | Inr orgs \<Rightarrow>
          Inr (mapInner orgs (\<lambda>org. Inr (listProjects [(''organizationName'', getProp org ''name'')]))))"
| "listResources Repo =
     (case listResources Project of
        Inl e \<Rightarrow> Inl e
      | Inr projects \<Rightarrow>
          Inr (mapInner projects
                 (\<lambda>p. case readMember (getProp p ''org'') ''name'' of
                         Inl e \<Rightarrow> Inl e
                       | Inr orgName \<Rightarrow>
                           Inr (listRepos [(''projectName'', getProp p ''name''),
                                           (''organizationName'', orgName)]))))"
| "listResources Branch = Inl BranchesNotSupported"
| "listResources Env =
     (case listResources Project of
        Inl e \<Rightarrow> Inl e
      | Inr projects \<Rightarrow> Inr (mapInner projects (\<lambda>p. listDevEnvs p)))"
  by pat_completeness auto
termination
  by (relation "measure rank") auto

text \<open>
  A caller of \<^verbatim>\<open>listResources\<close> that consumes what it is given: the call either throws, with
  the world as it was, or returns a sequence, which the caller then runs.
\<close>

definition consumeResources ::
  "resource_type \<Rightarrow> nat \<Rightarrow> world \<Rightarrow> (error + (obj list list \<times> ending)) \<times> world"
where
  "consumeResources resourceType n w =
     (case listResources resourceType of
        Inl e \<Rightarrow> (Inl e, w)
      | Inr collection \<Rightarrow> (case collection n w of (r, w1) \<Rightarrow> (Inr r, w1)))"

section \<open>Starting a workspace\<close>

definition getDevelopmentWorkspace :: "obj \<Rightarrow> world \<Rightarrow> (error + obj) \<times> world" where
  "getDevelopmentWorkspace args w =
     (let a = deleteProp ''repositories'' (deleteProp ''ideRuntimes'' args)
      in case call (GetDevelopmentWorkspace, getDevelopmentWorkspaceR, a) False None w of
           (Inl e, w1) \<Rightarrow> (Inl e, w1)
         | (Inr r, w1) \<Rightarrow>
             (Inr (intoDevelopmentWorkspace (getProp args ''organizationName'')
                     (getProp args ''projectName'') (spread args r)), w1))"

definition startDevEnv :: "obj \<Rightarrow> world \<Rightarrow> (error + obj) \<times> world" where
  "startDevEnv args w = call (StartDevelopmentWorkspace, startDevelopmentWorkspaceR, args) False None w"

text \<open>
  Modelled from the spec: \<^verbatim>\<open>Timeout\<close>, \<^verbatim>\<open>waitUntil\<close> and \<^verbatim>\<open>waitTimeout\<close>
  (\<^verbatim>\<open>utilities/timeoutUtils\<close>) and \<^verbatim>\<open>showMessageWithCancel\<close> (\<^verbatim>\<open>utilities/messages\<close>) are
  not among the sources. The spec: a bounded polling loop with a fixed interval is raced
  against an overall timeout that is also the cancellation token; whichever completes
  first wins; on expiry and on cancellation the operation resolves to what the callback
  for it gives; a fatal error of an iteration aborts the whole operation. Time is counted
  in polling intervals: the timeout completes at the start of some tick, by expiry or by
  the user's cancellation, or not at all while the loop runs, and the source reads it at
  the start of every iteration.
\<close>

datatype completion = Expired | Cancelled

type_synonym timeout = "(nat \<times> completion) option"

definition completed :: "timeout \<Rightarrow> world \<Rightarrow> bool" where
  "completed tm w = (case tm of None \<Rightarrow> False | Some (t, reason) \<Rightarrow> t \<le> now w)"

definition sleep :: "world \<Rightarrow> world" where
  "sleep w = w\<lparr>now := Suc (now w)\<rparr>"

text \<open>
  \<^verbatim>\<open>waitUntil(fn, { interval, timeout, truthy: true })\<close>: \<open>n\<close> is the number of iterations
  that the loop's own time allows. The state \<open>s\<close> is what the callback keeps between its
  calls.
\<close>

fun waitUntil ::
  "('s \<Rightarrow> world \<Rightarrow> (error + 'a option) \<times> 's \<times> world) \<Rightarrow> nat \<Rightarrow> 's \<Rightarrow> world
     \<Rightarrow> (error + 'a option) \<times> 's \<times> world"
where
  "waitUntil fn 0 s w = (Inr None, s, w)"
| "waitUntil fn (Suc n) s w =
     (case fn s w of
        (Inl e, s1, w1) \<Rightarrow> (Inl e, s1, w1)
      | (Inr (Some result), s1, w1) \<Rightarrow> (Inr (Some result), s1, w1)
      | (Inr None, s1, w1) \<Rightarrow> waitUntil fn n s1 (sleep w1))"

definition waitTimeout ::
  "(error + 'a option) \<times> 's \<times> world \<Rightarrow> timeout \<Rightarrow> (world \<Rightarrow> 'a option \<times> world)
     \<Rightarrow> (world \<Rightarrow> 'a option \<times> world) \<Rightarrow> (error + 'a option) \<times> world"
where
  "waitTimeout promise tm onExpire onCancel =
     (case promise of (r, s, w) \<Rightarrow>
        (case tm of
           None \<Rightarrow> (r, w)
         | Some (t, reason) \<Rightarrow>
             (if t \<le> now w
              then (case reason of
                      Expired \<Rightarrow> (case onExpire w of (v, w1) \<Rightarrow> (Inr v, w1))
                    | Cancelled \<Rightarrow> (case onCancel w of (v, w1) \<Rightarrow> (Inr v, w1)))
              else (r, w))))"

text \<open>
  The callback that \<^verbatim>\<open>startEnvironmentWithProgress\<close> gives to \<^verbatim>\<open>waitUntil\<close>; the state it
  keeps is \<^verbatim>\<open>lastStatus\<close>.
\<close>

definition pollMde_fn :: "obj \<Rightarrow> timeout \<Rightarrow> jsval \<Rightarrow> world \<Rightarrow> (error + obj option) \<times> jsval \<times> world" where
  "pollMde_fn args tm lastStatus w =
     (if completed tm w then (Inr None, lastStatus, w)
      else
        (case getDevelopmentWorkspace args w of
           (Inl e, w1) \<Rightarrow> (Inl e, lastStatus, w1)
         | (Inr resp, w1) \<Rightarrow>
             (if isStr lastStatus ''STARTING''
                 \<and> (isStr (getProp resp ''status'') ''STOPPED'' \<or> isStr (getProp resp ''status'') ''STOPPING'')
              then (Inl FailedToStart, lastStatus, w1)
              else
                (case (if isStr (getProp resp ''status'') ''STOPPED''
                       then (case startDevEnv args (emit (Report ''resuming environment...'') w1) of
                               (Inl e, w2) \<Rightarrow> (Inl e, w2)
                             | (Inr r, w2) \<Rightarrow> (Inr (), w2))
                       else if isStr (getProp resp ''status'') ''STOPPING''
                       then (Inr (), emit (Report ''waiting for environment to stop...'') w1)
                       else (Inr (), emit (Report ''waiting for environment...'') w1)) of
                   (Inl e, w3) \<Rightarrow> (Inl e, lastStatus, w3)
                 | (Inr u, w3) \<Rightarrow>
                     (Inr (if isStr (getProp resp ''status'') ''RUNNING'' then Some resp else None),
                      getProp resp ''status'', w3)))))"

definition onExpire :: "obj \<Rightarrow> world \<Rightarrow> obj option \<times> world" where
  "onExpire args w =
     (None, emit (ShowErrorMessage (''Timeout waiting for workspace: '' @ localizeArg (getProp args ''id''))) w)"

definition onCancel :: "world \<Rightarrow> obj option \<times> world" where
  "onCancel w = (None, w)"

text \<open>
  \<^verbatim>\<open>startEnvironmentWithProgress(args, status, timeout)\<close>; \<open>n\<close> is the number of iterations
  that \<^verbatim>\<open>timeout.remainingTime\<close> allows the loop at the interval of 5000 ms.
\<close>

definition startEnvironmentWithProgress ::
  "obj \<Rightarrow> string \<Rightarrow> timeout \<Rightarrow> nat \<Rightarrow> world \<Rightarrow> (error + obj option) \<times> world"
where
  "startEnvironmentWithProgress args status tm n w =
     (case (case getDevelopmentWorkspace args w of
              (Inr env, w1) \<Rightarrow>
                (if status = ''RUNNING'' \<and> isStr (getProp env ''status'') ''RUNNING''
                 then (Some env, getProp env ''status'', w1)
                 else (None, getProp env ''status'', w1))
            | (Inl e, w1) \<Rightarrow> (None, JUndefined, w1)) of
        (Some env, lastStatus, w1) \<Rightarrow> (Inr (Some env), w1)
      | (None, lastStatus, w1) \<Rightarrow>
          waitTimeout
            (waitUntil (pollMde_fn args tm) n lastStatus
               (emit (Report ''checking status...'') (emit (ShowMessageWithCancel ''CODE.AWS'') w1)))
            tm (onExpire args) onCancel)"

text \<open>
  Runs are told apart by how far they get. The state of the loop after \<open>k\<close> iterations of
  a callback, none of which ended the loop: what the callback keeps, and the world after
  the sleep that follows the last of them.
\<close>

fun iterations ::
  "('s \<Rightarrow> world \<Rightarrow> (error + 'a option) \<times> 's \<times> world) \<Rightarrow> nat \<Rightarrow> 's \<Rightarrow> world \<Rightarrow> ('s \<times> world) option"
where
  "iterations fn 0 s w = Some (s, w)"
| "iterations fn (Suc k) s w =
     (case fn s w of
        (Inl e, s1, w1) \<Rightarrow> None
      | (Inr (Some result), s1, w1) \<Rightarrow> None
      | (Inr None, s1, w1) \<Rightarrow> iterations fn k s1 (sleep w1))"

text \<open>
  The state of the loop of \<^verbatim>\<open>startEnvironmentWithProgress\<close> after the fetch before the loop,
  the two progress messages and \<open>k\<close> iterations; there is none when the operation has
  returned or thrown before.
\<close>

definition afterIterations :: "obj \<Rightarrow> string \<Rightarrow> timeout \<Rightarrow> nat \<Rightarrow> world \<Rightarrow> (jsval \<times> world) option" where
  "afterIterations args status tm k w =
     (case getDevelopmentWorkspace args w of
        (Inr env, w1) \<Rightarrow>
          (if status = ''RUNNING'' \<and> isStr (getProp env ''status'') ''RUNNING'' then None
           else iterations (pollMde_fn args tm) k (getProp env ''status'')
                  (emit (Report ''checking status...'') (emit (ShowMessageWithCancel ''CODE.AWS'') w1)))
      | (Inl e, w1) \<Rightarrow>
          iterations (pollMde_fn args tm) k JUndefined
            (emit (Report ''checking status...'') (emit (ShowMessageWithCancel ''CODE.AWS'') w1)))"

text \<open>
  What the \<open>j\<close>-th status request of a run for \<open>args\<close> observes: the rejection, or the status
  of the workspace that \<^verbatim>\<open>getDevelopmentWorkspace\<close> makes of the answer.
\<close>

definition observedStatus :: "obj \<Rightarrow> world \<Rightarrow> nat \<Rightarrow> aws_error + jsval" where
  "observedStatus args w j =
     (case getDevelopmentWorkspaceR (remote w) j (deleteProp ''repositories'' (deleteProp ''ideRuntimes'' args)) of
        Inl e \<Rightarrow> Inl e
      | Inr r \<Rightarrow> Inr (getProp (spread args r) ''status''))"

section \<open>Concrete services, clients and requests\<close>

text \<open>A service that rejects every request, and a world in which nothing has happened yet.\<close>

definition offline :: remote where
  "offline =
     \<lparr>verifySessionR = (\<lambda>k p. Inl ''offline''), getUserDetailsR = (\<lambda>k p. Inl ''offline''),
      listOrganizationsR = (\<lambda>k p. Inl ''offline''), listProjectsR = (\<lambda>k p. Inl ''offline''),
      listSourceRepositoriesR = (\<lambda>k p. Inl ''offline''),
      listDevelopmentWorkspaceR = (\<lambda>k p. Inl ''offline''),
      getDevelopmentWorkspaceR = (\<lambda>k p. Inl ''offline''),
      startDevelopmentWorkspaceR = (\<lambda>k p. Inl ''offline'')\<rparr>"

definition world0 :: "remote \<Rightarrow> world" where
  "world0 r = \<lparr>remote = r, now = 0, trace = []\<rparr>"

text \<open>A service whose principal has the identity \<open>i\<close>, and the details it gives of the user.\<close>

definition aliceDetails :: user_details where
  "aliceDetails =
     \<lparr>udUserId = ''u1'', udUserName = ''alice'', udDisplayName = ''Alice'',
      udPrimaryEmail = ''alice@example.com'', udVersion = ''1''\<rparr>"

definition sessionRemote :: "string option \<Rightarrow> remote" where
  "sessionRemote i =
     offline\<lparr>verifySessionR := (\<lambda>k p. Inr \<lparr>identity = i\<rparr>),
       getUserDetailsR := (\<lambda>k p. Inr \<lparr>respUserId = Some ''u1'', respUserName = Some ''alice'',
          respDisplayName = Some ''Alice'', respPrimaryEmail = Some ''alice@example.com'',
          respVersion = Some ''1''\<rparr>)\<rparr>"

text \<open>A client with a token, the stored user id \<open>u\<close> and no user details.\<close>

definition freshClient :: "string option \<Rightarrow> client" where
  "freshClient u =
     \<lparr>regionCode = ''us-east-1'', endpoint = ''https://example'',
      sdkClient = createCawsClient (Some ''tok'') ''us-east-1'' ''https://example'',
      bearerToken = Some ''tok'', userId = u, userDetails = None\<rparr>"

text \<open>
  A service whose every listing answers the first request with one summary, which has
  neither an id nor a name, and a continuation token, and rejects the requests after it.
\<close>

definition flakyRemote :: remote where
  "flakyRemote =
     offline\<lparr>listOrganizationsR :=
         (\<lambda>k p. if k = 0 then Inr \<lparr>items = Some [[(''description'', JStr ''d'')]], nextToken = Some ''t1''\<rparr>
                 else Inl ''ServiceUnavailable''),
       listProjectsR :=
         (\<lambda>k p. if k = 0 then Inr \<lparr>items = Some [[(''description'', JStr ''d'')]], nextToken = Some ''t1''\<rparr>
                 else Inl ''ServiceUnavailable''),
       listSourceRepositoriesR :=
         (\<lambda>k p. if k = 0 then Inr \<lparr>items = Some [[(''description'', JStr ''d'')]], nextToken = Some ''t1''\<rparr>
                 else Inl ''ServiceUnavailable''),
       listDevelopmentWorkspaceR :=
         (\<lambda>k p. if k = 0 then Inr \<lparr>items = [[(''description'', JStr ''d'')]], nextToken = Some ''t1''\<rparr>
                 else Inl ''ServiceUnavailable'')\<rparr>"

definition webProject :: obj where
  "webProject =
     [(''type'', JStr ''project''), (''id'', JStr []), (''org'', JObj [(''name'', JStr ''acme'')]),
      (''name'', JStr ''web'')]"

text \<open>
  A service that answers the \<open>k\<close>-th status request for a workspace with the \<open>k\<close>-th status
  of a list, rejects the status requests after the list, and accepts every start command.
\<close>

definition statusRemote :: "string list \<Rightarrow> remote" where
  "statusRemote sts =
     offline\<lparr>getDevelopmentWorkspaceR :=
         (\<lambda>k p. if k < length sts then Inr [(''status'', JStr (sts ! k))] else Inl ''gone''),
       startDevelopmentWorkspaceR := (\<lambda>k p. Inr [])\<rparr>"

text \<open>The same service, except that it rejects every start command.\<close>

definition refusingRemote :: "string list \<Rightarrow> remote" where
  "refusingRemote sts = (statusRemote sts)\<lparr>startDevelopmentWorkspaceR := (\<lambda>k p. Inl ''denied'')\<rparr>"

definition workspaceArgs :: obj where
  "workspaceArgs =
     [(''id'', JStr ''ws-1''), (''organizationName'', JStr ''acme''), (''projectName'', JStr ''web'')]"

text \<open>A service that rejects the first status request and then reports the workspace RUNNING.\<close>

definition recoveringRemote :: remote where
  "recoveringRemote =
     offline\<lparr>getDevelopmentWorkspaceR :=
       (\<lambda>k p. if k = 0 then Inl ''throttled'' else Inr [(''status'', JStr ''RUNNING'')])\<rparr>"

section \<open>Basic facts\<close>

lemma ncalls_emit [simp]:
  "ncalls opn (emit e w) = (if e = Call opn then Suc (ncalls opn w) else ncalls opn w)"
  by (simp add: ncalls_def emit_def)

lemma remote_emit [simp]: "remote (emit e w) = remote w"
  by (simp add: emit_def)

lemma now_emit [simp]: "now (emit e w) = now w"
  by (simp add: emit_def)

lemma trace_emit [simp]: "trace (emit e w) = trace w @ [e]"
  by (simp add: emit_def)

lemma ncalls_sleep [simp]: "ncalls opn (sleep w) = ncalls opn w"
  by (simp add: ncalls_def sleep_def)

lemma remote_sleep [simp]: "remote (sleep w) = remote w"
  by (simp add: sleep_def)

lemma now_sleep [simp]: "now (sleep w) = Suc (now w)"
  by (simp add: sleep_def)

lemma trace_sleep [simp]: "trace (sleep w) = trace w"
  by (simp add: sleep_def)

lemma completed_emit [simp]: "completed tm (emit e w) = completed tm w"
  by (simp add: completed_def split: option.splits)

lemma call_silent:
  "call (opn, send, params) True (Some d) w =
     (case send (remote w) (ncalls opn w) params of
        Inl e \<Rightarrow> (Inr d, emit (Call opn) w)
      | Inr r \<Rightarrow> (Inr r, emit (Call opn) w))"
  by (simp add: call_def split: sum.splits)

lemma call_strict:
  "call (opn, send, params) False None w =
     (case send (remote w) (ncalls opn w) params of
        Inl e \<Rightarrow> (Inl (Remote e), emit (Call opn) w)
      | Inr r \<Rightarrow> (Inr r, emit (Call opn) w))"
  by (simp add: call_def split: sum.splits)

lemma isStr_eq [simp]: "isStr v t = (v = JStr t)"
  by (cases v) auto

section \<open>Properties of the session\<close>

lemma verifySession_success_caches:
  assumes "verifySession c w = (Inr d, c', w')"
  shows "userDetails c' = Some d"
  using assms
  by (auto simp: verifySession_def Let_def split: prod.splits sum.splits option.splits if_splits)

lemma verifySession_cached:
  assumes "userDetails c = Some d" and "verifySession c w = (Inr d', c', w')"
  shows "d' = d \<and> userDetails c' = Some d \<and> w' = emit (Call VerifySession) w"
  using assms
  by (auto simp: verifySession_def Let_def call_def split: prod.splits sum.splits option.splits if_splits)

text \<open>
  C7, as the code has it. The guard of \<^verbatim>\<open>verifySession\<close> tests the stored user id for
  truthiness. When the stored id is a non-empty string and the response carries another
  identity, \<^verbatim>\<open>verifySession\<close> throws the identity-mismatch error and leaves the client, and
  so the stored id, as it was. When the response has no identity field, it fails with the
  validation error, again with the client as it was.
\<close>

theorem verifySession_mismatch_or_missing_identity:
  assumes "verifySessionR (remote w) (ncalls VerifySession w) [] = Inr resp"
  shows "(userId c = Some u \<and> u \<noteq> [] \<and> identity resp = Some i \<and> i \<noteq> u \<longrightarrow>
            verifySession c w = (Inl IdentityMismatch, c, emit (Call VerifySession) w))
       \<and> (identity resp = None \<longrightarrow>
            verifySession c w = (Inl (MissingProps [''identity'']), c, emit (Call VerifySession) w))"
  using assms
  by (auto simp: verifySession_def call_def assertHasProps_def)

theorem verifySession_mismatch_or_missing_identity_witness:
  "verifySession (freshClient (Some ''u1'')) (world0 (sessionRemote (Some ''u2'')))
     = (Inl IdentityMismatch, freshClient (Some ''u1''),
        emit (Call VerifySession) (world0 (sessionRemote (Some ''u2''))))
   \<and> verifySession (freshClient (Some ''u1'')) (world0 (sessionRemote None))
     = (Inl (MissingProps [''identity'']), freshClient (Some ''u1''),
        emit (Call VerifySession) (world0 (sessionRemote None)))"
proof -
  have a: "verifySessionR (remote (world0 (sessionRemote (Some ''u2''))))
             (ncalls VerifySession (world0 (sessionRemote (Some ''u2'')))) []
           = Inr \<lparr>identity = Some ''u2''\<rparr>"
    by (simp add: world0_def sessionRemote_def offline_def)
  have b: "verifySessionR (remote (world0 (sessionRemote None)))
             (ncalls VerifySession (world0 (sessionRemote None))) []
           = Inr \<lparr>identity = None\<rparr>"
    by (simp add: world0_def sessionRemote_def offline_def)
  have u: "userId (freshClient (Some ''u1'')) = Some ''u1''"
    by (simp add: freshClient_def)
  from verifySession_mismatch_or_missing_identity [OF a, of "freshClient (Some ''u1'')" "''u1''" "''u2''"]
       verifySession_mismatch_or_missing_identity [OF b, of "freshClient (Some ''u1'')" "''u1''" "''u2''"]
       u
  show ?thesis by simp
qed

text \<open>
  C7 as stated fails for a stored user id that is the empty string: the response carries
  another identity, and \<^verbatim>\<open>verifySession\<close> succeeds and overwrites the stored id.
\<close>

theorem verifySession_empty_id_counterexample:
  "userId (freshClient (Some [])) = Some []
   \<and> verifySessionR (remote (world0 (sessionRemote (Some ''u2'')))) 0 [] = Inr \<lparr>identity = Some ''u2''\<rparr>
   \<and> fst (verifySession (freshClient (Some [])) (world0 (sessionRemote (Some ''u2'')))) = Inr aliceDetails
   \<and> userId (fst (snd (verifySession (freshClient (Some [])) (world0 (sessionRemote (Some ''u2''))))))
       = Some ''u2''"
  by (simp add: verifySession_def getUserDetails_def call_def assertHasProps_def freshClient_def
      world0_def sessionRemote_def offline_def aliceDetails_def ncalls_def emit_def)

text \<open>
  C8. When \<^verbatim>\<open>verifySession\<close> succeeds twice in a row, the second call returns the user
  details of the first, sends the session request and nothing else, and so fetches no
  user details; the first call fetched them at most once.
\<close>

theorem verifySession_twice:
  assumes "verifySession c w = (Inr d1, c1, w1)"
      and "verifySession c1 w1 = (Inr d2, c2, w2)"
  shows "d2 = d1 \<and> w2 = emit (Call VerifySession) w1
         \<and> ncalls GetUserDetails w2 = ncalls GetUserDetails w1
         \<and> ncalls GetUserDetails w2 \<le> Suc (ncalls GetUserDetails w)"
proof -
  from assms(1) have cached: "userDetails c1 = Some d1"
    by (rule verifySession_success_caches)
  from verifySession_cached [OF cached assms(2)]
  have a: "d2 = d1" and b: "w2 = emit (Call VerifySession) w1" by simp_all
  have c: "ncalls GetUserDetails w1 \<le> Suc (ncalls GetUserDetails w)"
    using assms(1)
    by (auto simp: verifySession_def getUserDetails_def Let_def call_def
        split: prod.splits sum.splits option.splits if_splits)
  show ?thesis using a b c by simp
qed

theorem verifySession_twice_witness:
  "verifySession (freshClient None) (world0 (sessionRemote (Some ''u1'')))
     = (Inr aliceDetails,
        (freshClient None)\<lparr>userId := Some ''u1'', userDetails := Some aliceDetails\<rparr>,
        emit (Call GetUserDetails) (emit (Call VerifySession) (world0 (sessionRemote (Some ''u1'')))))
   \<and> verifySession ((freshClient None)\<lparr>userId := Some ''u1'', userDetails := Some aliceDetails\<rparr>)
       (emit (Call GetUserDetails) (emit (Call VerifySession) (world0 (sessionRemote (Some ''u1'')))))
     = (Inr aliceDetails,
        (freshClient None)\<lparr>userId := Some ''u1'', userDetails := Some aliceDetails\<rparr>,
        emit (Call VerifySession)
          (emit (Call GetUserDetails) (emit (Call VerifySession) (world0 (sessionRemote (Some ''u1''))))))
   \<and> ncalls GetUserDetails
        (emit (Call VerifySession)
          (emit (Call GetUserDetails) (emit (Call VerifySession) (world0 (sessionRemote (Some ''u1''))))))
      = 1"
proof -
  have first: "verifySession (freshClient None) (world0 (sessionRemote (Some ''u1'')))
     = (Inr aliceDetails,
        (freshClient None)\<lparr>userId := Some ''u1'', userDetails := Some aliceDetails\<rparr>,
        emit (Call GetUserDetails) (emit (Call VerifySession) (world0 (sessionRemote (Some ''u1'')))))"
    by (simp add: verifySession_def getUserDetails_def call_def assertHasProps_def freshClient_def
        world0_def sessionRemote_def offline_def aliceDetails_def ncalls_def)
  have second: "verifySession ((freshClient None)\<lparr>userId := Some ''u1'', userDetails := Some aliceDetails\<rparr>)
       (emit (Call GetUserDetails) (emit (Call VerifySession) (world0 (sessionRemote (Some ''u1'')))))
     = (Inr aliceDetails,
        (freshClient None)\<lparr>userId := Some ''u1'', userDetails := Some aliceDetails\<rparr>,
        emit (Call VerifySession)
          (emit (Call GetUserDetails) (emit (Call VerifySession) (world0 (sessionRemote (Some ''u1''))))))"
    by (simp add: verifySession_def call_def assertHasProps_def freshClient_def
        world0_def sessionRemote_def offline_def)
  from verifySession_twice [OF first second] first second
  show ?thesis by (simp add: world0_def ncalls_def)
qed

text \<open>
  C10. \<^verbatim>\<open>setCredentials\<close> with a raw id string replaces the bearer token, the transport
  binding built from it, and the stored user id, and nothing else: the cached user
  details are the ones from before, and so is the identity the client exposes; the
  connected flag is that of the new token together with the earlier details.
\<close>

theorem setCredentials_string_frame:
  "setCredentials c tok (IdString s) =
     c\<lparr>bearerToken := Some tok,
       sdkClient := createCawsClient (Some tok) (regionCode c) (endpoint c),
       userId := Some s\<rparr>
   \<and> userDetails (setCredentials c tok (IdString s)) = userDetails c
   \<and> clientIdentity (setCredentials c tok (IdString s)) = clientIdentity c
   \<and> connected (setCredentials c tok (IdString s)) = (tok \<noteq> [] \<and> userDetails c \<noteq> None)"
  by (simp add: setCredentials_def clientIdentity_def connected_def)

lemma collection_map_ending:
  "snd (fst (collection_map f c n w)) = snd (fst (c n w))"
  by (simp add: collection_map_def split: prod.splits)

section \<open>Properties of the listing operations\<close>

text \<open>
  The two requesters of a listing differ only where a page fetch is rejected: the strict
  one raises the remote error, the silent one of the source gives the default page.
\<close>

lemma soft_in_place_of_raise:
  assumes "pageableToCollection (\<lambda>rq. call (opn, send, rq) False None) request n w
             = ((bs, Raised err), w')"
  shows "pageableToCollection (\<lambda>rq. call (opn, send, rq) True (Some \<lparr>items = d, nextToken = None\<rparr>)) request n w
             = ((bs @ [d], Finished), w')"
  using assms
proof (induction n arbitrary: request w bs)
  case 0
  then show ?case by simp
next
  case (Suc n)
  show ?case
  proof (cases "send (remote w) (ncalls opn w) request")
    case (Inl e)
    then have "call (opn, send, request) False None w = (Inl (Remote e), emit (Call opn) w)"
      and "call (opn, send, request) True (Some \<lparr>items = d, nextToken = None\<rparr>) w
             = (Inr \<lparr>items = d, nextToken = None\<rparr>, emit (Call opn) w)"
      by (simp_all add: call_silent call_strict)
    with Suc.prems show ?thesis by simp
  next
    case (Inr response)
    then have strict: "call (opn, send, request) False None w = (Inr response, emit (Call opn) w)"
      and soft: "call (opn, send, request) True (Some \<lparr>items = d, nextToken = None\<rparr>) w
             = (Inr response, emit (Call opn) w)"
      by (simp_all add: call_silent call_strict)
    show ?thesis
    proof (cases "nextToken response")
      case None
      with strict Suc.prems show ?thesis by simp
    next
      case (Some t)
      obtain bs1 en1 w1 where rest:
        "pageableToCollection (\<lambda>rq. call (opn, send, rq) False None)
           (spread request [(''nextToken'', JStr t)]) n (emit (Call opn) w) = ((bs1, en1), w1)"
        by (metis prod.exhaust)
      with strict Some Suc.prems have "en1 = Raised err" "bs = items response # bs1" "w' = w1"
        by simp_all
      with rest Suc.IH [of "spread request [(''nextToken'', JStr t)]" "emit (Call opn) w" bs1]
      show ?thesis using soft Some by simp
    qed
  qed
qed

lemma soft_never_raises:
  "snd (fst (pageableToCollection (\<lambda>rq. call (opn, send, rq) True (Some d)) request n w)) \<noteq> Raised err"
proof (induction n arbitrary: request w)
  case 0
  then show ?case by simp
next
  case (Suc n)
  obtain page where soft: "call (opn, send, request) True (Some d) w = (Inr page, emit (Call opn) w)"
    by (cases "send (remote w) (ncalls opn w) request") (simp_all add: call_silent)
  show ?case
  proof (cases "nextToken page")
    case None
    with soft show ?thesis by simp
  next
    case (Some t)
    with soft Suc.IH [of "spread request [(''nextToken'', JStr t)]" "emit (Call opn) w"]
    show ?thesis by (auto split: prod.splits)
  qed
qed


text \<open>
  C5. A run of the strict paginator that ends by raising a remote error, after the
  batches \<open>bs\<close>, is a run in which a page fetch fails after these batches were yielded.
  On the same service and from the same world, each of the four listing operations
  yields the same batches (post-processed), then the empty batch of the page that stands
  in for the failed one, and finishes, having sent the same requests. No listing ever
  raises an exception into its consumer.
\<close>

theorem listing_fails_soft:
  "(pageableToCollection (\<lambda>rq. call (ListOrganizations, listOrganizationsR, rq) False None) request n w
       = ((bs, Raised (Remote e)), w')
     \<longrightarrow> listOrgs request n w
           = ((map (\<lambda>summaries. case summaries of None \<Rightarrow> [] | Some xs \<Rightarrow> map asCawsOrg xs) bs @ [[]],
               Finished), w'))
   \<and> (pageableToCollection (\<lambda>rq. call (ListProjects, listProjectsR, rq) False None) request n w
       = ((bs, Raised (Remote e)), w')
     \<longrightarrow> listProjects request n w
           = ((map (\<lambda>summaries. case summaries of None \<Rightarrow> [] | Some xs \<Rightarrow> map (asCawsProject request) xs) bs @ [[]],
               Finished), w'))
   \<and> (pageableToCollection (\<lambda>rq. call (ListSourceRepositories, listSourceRepositoriesR, rq) False None) request n w
       = ((bs, Raised (Remote e)), w')
     \<longrightarrow> listRepos request n w
           = ((map (\<lambda>summaries. case summaries of None \<Rightarrow> [] | Some xs \<Rightarrow> map (asCawsRepo request) xs) bs @ [[]],
               Finished), w'))
   \<and> (listDevEnvs proj = Inr envs
      \<and> pageableToCollection (\<lambda>rq. call (ListDevelopmentWorkspace, listDevelopmentWorkspaceR, rq) False None)
          [(''organizationName'', orgName), (''projectName'', getProp proj ''name'')] n w
       = ((ebs, Raised (Remote e)), w')
      \<and> readMember (getProp proj ''org'') ''name'' = Inr orgName
     \<longrightarrow> envs n w
           = ((map (map (intoDevelopmentWorkspace orgName (getProp proj ''name''))) ebs @ [[]], Finished), w'))
   \<and> snd (fst (listOrgs request n w)) \<noteq> Raised err
   \<and> snd (fst (listProjects request n w)) \<noteq> Raised err
   \<and> snd (fst (listRepos request n w)) \<noteq> Raised err
   \<and> (listDevEnvs proj = Inr envs \<longrightarrow> snd (fst (envs n w)) \<noteq> Raised err)"
proof -
  have orgs: "pageableToCollection (\<lambda>rq. call (ListOrganizations, listOrganizationsR, rq) False None) request n w
       = ((bs, Raised (Remote e)), w')
     \<Longrightarrow> listOrgs request n w
           = ((map (\<lambda>summaries. case summaries of None \<Rightarrow> [] | Some xs \<Rightarrow> map asCawsOrg xs) bs @ [[]],
               Finished), w')"
    by (simp add: listOrgs_def collection_map_def soft_in_place_of_raise)
  have projects: "pageableToCollection (\<lambda>rq. call (ListProjects, listProjectsR, rq) False None) request n w
       = ((bs, Raised (Remote e)), w')
     \<Longrightarrow> listProjects request n w
           = ((map (\<lambda>summaries. case summaries of None \<Rightarrow> [] | Some xs \<Rightarrow> map (asCawsProject request) xs) bs @ [[]],
               Finished), w')"
    by (simp add: listProjects_def collection_map_def soft_in_place_of_raise)
  have repos: "pageableToCollection (\<lambda>rq. call (ListSourceRepositories, listSourceRepositoriesR, rq) False None) request n w
       = ((bs, Raised (Remote e)), w')
     \<Longrightarrow> listRepos request n w
           = ((map (\<lambda>summaries. case summaries of None \<Rightarrow> [] | Some xs \<Rightarrow> map (asCawsRepo request) xs) bs @ [[]],
               Finished), w')"
    by (simp add: listRepos_def collection_map_def soft_in_place_of_raise)
  have envs: "listDevEnvs proj = Inr envs \<Longrightarrow>
      pageableToCollection (\<lambda>rq. call (ListDevelopmentWorkspace, listDevelopmentWorkspaceR, rq) False None)
          [(''organizationName'', orgName), (''projectName'', getProp proj ''name'')] n w
       = ((ebs, Raised (Remote e)), w') \<Longrightarrow>
      readMember (getProp proj ''org'') ''name'' = Inr orgName
     \<Longrightarrow> envs n w
           = ((map (map (intoDevelopmentWorkspace orgName (getProp proj ''name''))) ebs @ [[]], Finished), w')"
    by (auto simp: listDevEnvs_def collection_map_def soft_in_place_of_raise)
  have never: "snd (fst (listOrgs request n w)) \<noteq> Raised err"
    "snd (fst (listProjects request n w)) \<noteq> Raised err"
    "snd (fst (listRepos request n w)) \<noteq> Raised err"
    by (simp_all add: listOrgs_def listProjects_def listRepos_def collection_map_ending soft_never_raises)
  have never_envs: "listDevEnvs proj = Inr envs \<Longrightarrow> snd (fst (envs n w)) \<noteq> Raised err"
    by (auto simp: listDevEnvs_def collection_map_ending soft_never_raises split: sum.splits)
  from orgs projects repos envs never never_envs show ?thesis by blast
qed


theorem listing_fails_soft_witness:
  "listOrgs [] (Suc (Suc 0)) (world0 flakyRemote)
     = (([[asCawsOrg [(''description'', JStr ''d'')]], []], Finished),
        emit (Call ListOrganizations) (emit (Call ListOrganizations) (world0 flakyRemote)))
   \<and> listProjects [(''organizationName'', JStr ''acme'')] (Suc (Suc 0)) (world0 flakyRemote)
     = (([[asCawsProject [(''organizationName'', JStr ''acme'')] [(''description'', JStr ''d'')]], []], Finished),
        emit (Call ListProjects) (emit (Call ListProjects) (world0 flakyRemote)))
   \<and> listRepos [(''organizationName'', JStr ''acme'')] (Suc (Suc 0)) (world0 flakyRemote)
     = (([[asCawsRepo [(''organizationName'', JStr ''acme'')] [(''description'', JStr ''d'')]], []], Finished),
        emit (Call ListSourceRepositories) (emit (Call ListSourceRepositories) (world0 flakyRemote)))
   \<and> (case listDevEnvs webProject of
         Inl err \<Rightarrow> False
       | Inr envs \<Rightarrow>
           envs (Suc (Suc 0)) (world0 flakyRemote)
             = (([[intoDevelopmentWorkspace (JStr ''acme'') (JStr ''web'') [(''description'', JStr ''d'')]], []],
                 Finished),
                emit (Call ListDevelopmentWorkspace) (emit (Call ListDevelopmentWorkspace) (world0 flakyRemote))))"
proof -
  have orgs: "pageableToCollection (\<lambda>rq. call (ListOrganizations, listOrganizationsR, rq) False None)
                [] (Suc (Suc 0)) (world0 flakyRemote)
              = (([Some [[(''description'', JStr ''d'')]]], Raised (Remote ''ServiceUnavailable'')),
                 emit (Call ListOrganizations) (emit (Call ListOrganizations) (world0 flakyRemote)))"
    by (simp add: call_strict flakyRemote_def offline_def world0_def ncalls_def)
  have projects: "pageableToCollection (\<lambda>rq. call (ListProjects, listProjectsR, rq) False None)
                [(''organizationName'', JStr ''acme'')] (Suc (Suc 0)) (world0 flakyRemote)
              = (([Some [[(''description'', JStr ''d'')]]], Raised (Remote ''ServiceUnavailable'')),
                 emit (Call ListProjects) (emit (Call ListProjects) (world0 flakyRemote)))"
    by (simp add: call_strict flakyRemote_def offline_def world0_def ncalls_def)
  have repos: "pageableToCollection (\<lambda>rq. call (ListSourceRepositories, listSourceRepositoriesR, rq) False None)
                [(''organizationName'', JStr ''acme'')] (Suc (Suc 0)) (world0 flakyRemote)
              = (([Some [[(''description'', JStr ''d'')]]], Raised (Remote ''ServiceUnavailable'')),
                 emit (Call ListSourceRepositories) (emit (Call ListSourceRepositories) (world0 flakyRemote)))"
    by (simp add: call_strict flakyRemote_def offline_def world0_def ncalls_def)
  have org: "readMember (getProp webProject ''org'') ''name'' = Inr (JStr ''acme'')"
    and name: "getProp webProject ''name'' = JStr ''web''"
    by (simp_all add: webProject_def getProp_def)
  have envs: "pageableToCollection (\<lambda>rq. call (ListDevelopmentWorkspace, listDevelopmentWorkspaceR, rq) False None)
                [(''organizationName'', JStr ''acme''), (''projectName'', getProp webProject ''name'')]
                (Suc (Suc 0)) (world0 flakyRemote)
              = (([[[(''description'', JStr ''d'')]]], Raised (Remote ''ServiceUnavailable'')),
                 emit (Call ListDevelopmentWorkspace) (emit (Call ListDevelopmentWorkspace) (world0 flakyRemote)))"
    by (simp add: call_strict flakyRemote_def offline_def world0_def ncalls_def)
  obtain envsC where listed: "listDevEnvs webProject = Inr envsC"
    using org by (simp add: listDevEnvs_def)
  from listing_fails_soft [where request = "[]" and n = "Suc (Suc 0)" and w = "world0 flakyRemote"
         and bs = "[Some [[(''description'', JStr ''d'')]]]" and e = "''ServiceUnavailable''"
         and w' = "emit (Call ListOrganizations) (emit (Call ListOrganizations) (world0 flakyRemote))"]
       orgs
  have r1: "listOrgs [] (Suc (Suc 0)) (world0 flakyRemote)
     = (([[asCawsOrg [(''description'', JStr ''d'')]], []], Finished),
        emit (Call ListOrganizations) (emit (Call ListOrganizations) (world0 flakyRemote)))"
    by simp
  from listing_fails_soft [where request = "[(''organizationName'', JStr ''acme'')]" and n = "Suc (Suc 0)"
         and w = "world0 flakyRemote"
         and bs = "[Some [[(''description'', JStr ''d'')]]]" and e = "''ServiceUnavailable''"
         and w' = "emit (Call ListProjects) (emit (Call ListProjects) (world0 flakyRemote))"]
       projects
  have r2: "listProjects [(''organizationName'', JStr ''acme'')] (Suc (Suc 0)) (world0 flakyRemote)
     = (([[asCawsProject [(''organizationName'', JStr ''acme'')] [(''description'', JStr ''d'')]], []], Finished),
        emit (Call ListProjects) (emit (Call ListProjects) (world0 flakyRemote)))"
    by simp
  from listing_fails_soft [where request = "[(''organizationName'', JStr ''acme'')]" and n = "Suc (Suc 0)"
         and w = "world0 flakyRemote"
         and bs = "[Some [[(''description'', JStr ''d'')]]]" and e = "''ServiceUnavailable''"
         and w' = "emit (Call ListSourceRepositories) (emit (Call ListSourceRepositories) (world0 flakyRemote))"]
       repos
  have r3: "listRepos [(''organizationName'', JStr ''acme'')] (Suc (Suc 0)) (world0 flakyRemote)
     = (([[asCawsRepo [(''organizationName'', JStr ''acme'')] [(''description'', JStr ''d'')]], []], Finished),
        emit (Call ListSourceRepositories) (emit (Call ListSourceRepositories) (world0 flakyRemote)))"
    by simp
  from listing_fails_soft [where proj = webProject and envs = envsC and orgName = "JStr ''acme''"
         and n = "Suc (Suc 0)" and w = "world0 flakyRemote"
         and ebs = "[[[(''description'', JStr ''d'')]]]" and e = "''ServiceUnavailable''"
         and w' = "emit (Call ListDevelopmentWorkspace) (emit (Call ListDevelopmentWorkspace) (world0 flakyRemote))"]
       envs org listed
  have r4: "envsC (Suc (Suc 0)) (world0 flakyRemote)
             = (([[intoDevelopmentWorkspace (JStr ''acme'') (JStr ''web'') [(''description'', JStr ''d'')]], []],
                 Finished),
                emit (Call ListDevelopmentWorkspace) (emit (Call ListDevelopmentWorkspace) (world0 flakyRemote)))"
    by (simp add: name)
  from r1 r2 r3 r4 listed show ?thesis by simp
qed

text \<open>
  C6, as the code has it. For organizations, projects and repositories, a summary with no
  id gives a record whose id is the empty string, and a summary with no name gives a
  record whose name is \<^verbatim>\<open>unknown\<close>; these listings never raise an exception into their
  consumer. A workspace summary is passed on with its type and the names of its
  organization and project added: a field that it lacks stays undefined.
\<close>

theorem missing_fields_default:
  "(map_of s ''id'' = None \<longrightarrow> getProp (asCawsOrg s) ''id'' = JStr [])
   \<and> (map_of s ''name'' = None \<longrightarrow> getProp (asCawsOrg s) ''name'' = JStr ''unknown'')
   \<and> (map_of s ''id'' = None \<longrightarrow> getProp (asCawsProject request s) ''id'' = JStr [])
   \<and> (map_of s ''name'' = None \<longrightarrow> getProp (asCawsProject request s) ''name'' = JStr ''unknown'')
   \<and> (map_of s ''id'' = None \<longrightarrow> getProp (asCawsRepo request s) ''id'' = JStr [])
   \<and> (map_of s ''name'' = None \<longrightarrow> getProp (asCawsRepo request s) ''name'' = JStr ''unknown'')
   \<and> (map_of s ''id'' = None \<longrightarrow> getProp (intoDevelopmentWorkspace org project s) ''id'' = JUndefined)
   \<and> (map_of s ''name'' = None \<longrightarrow> getProp (intoDevelopmentWorkspace org project s) ''name'' = JUndefined)
   \<and> snd (fst (listOrgs request n w)) \<noteq> Raised err
   \<and> snd (fst (listProjects request n w)) \<noteq> Raised err
   \<and> snd (fst (listRepos request n w)) \<noteq> Raised err"
  by (simp add: asCawsOrg_def asCawsProject_def asCawsRepo_def intoDevelopmentWorkspace_def
      getProp_def spread_def map_add_def coalesce_def
      listOrgs_def listProjects_def listRepos_def collection_map_ending soft_never_raises)


theorem missing_fields_default_witness:
  "getProp (asCawsOrg [(''description'', JStr ''d'')]) ''id'' = JStr []
   \<and> getProp (asCawsOrg [(''description'', JStr ''d'')]) ''name'' = JStr ''unknown''
   \<and> getProp (asCawsProject [(''organizationName'', JStr ''acme'')] [(''description'', JStr ''d'')]) ''id'' = JStr []
   \<and> getProp (asCawsProject [(''organizationName'', JStr ''acme'')] [(''description'', JStr ''d'')]) ''name''
       = JStr ''unknown''
   \<and> getProp (asCawsRepo [(''organizationName'', JStr ''acme'')] [(''description'', JStr ''d'')]) ''id'' = JStr []
   \<and> getProp (asCawsRepo [(''organizationName'', JStr ''acme'')] [(''description'', JStr ''d'')]) ''name''
       = JStr ''unknown''
   \<and> getProp (intoDevelopmentWorkspace (JStr ''acme'') (JStr ''web'') [(''description'', JStr ''d'')]) ''id''
       = JUndefined"
proof -
  have missing: "map_of [(''description'', JStr ''d'')] ''id'' = None"
    "map_of [(''description'', JStr ''d'')] ''name'' = None"
    by simp_all
  from missing_fields_default [where s = "[(''description'', JStr ''d'')]"
         and request = "[(''organizationName'', JStr ''acme'')]"
         and org = "JStr ''acme''" and project = "JStr ''web''"] missing
  show ?thesis by simp
qed

text \<open>
  C6 as stated fails for workspaces: the one workspace that \<^verbatim>\<open>listDevEnvs\<close> yields for a
  summary with neither an id nor a name has neither, not the defaults.
\<close>

theorem listDevEnvs_no_defaults_counterexample:
  "map_of [(''description'', JStr ''d'')] ''id'' = None
   \<and> map_of [(''description'', JStr ''d'')] ''name'' = None
   \<and> (case listDevEnvs webProject of
         Inl err \<Rightarrow> False
       | Inr envs \<Rightarrow>
           (case envs (Suc (Suc 0)) (world0 flakyRemote) of
              (([[env], []], Finished), w) \<Rightarrow>
                getProp env ''id'' = JUndefined \<and> getProp env ''id'' \<noteq> JStr []
                \<and> getProp env ''name'' = JUndefined \<and> getProp env ''name'' \<noteq> JStr ''unknown''
            | other \<Rightarrow> False))"
  by (simp add: listDevEnvs_def webProject_def getProp_def collection_map_def call_silent
      flakyRemote_def offline_def world0_def ncalls_def intoDevelopmentWorkspace_def spread_def)

text \<open>
  C9. \<^verbatim>\<open>listResources\<close> throws for branches, and a caller ready to consume the result is left
  with the exception and the world as it was: no request has been sent.
\<close>

theorem branches_not_supported:
  "listResources Branch = Inl BranchesNotSupported
   \<and> consumeResources Branch n w = (Inl BranchesNotSupported, w)"
  by (simp add: consumeResources_def)

section \<open>Properties of starting a workspace\<close>

lemma status_intoDevelopmentWorkspace [simp]:
  "getProp (intoDevelopmentWorkspace org project summary) ''status'' = getProp summary ''status''"
  by (simp add: intoDevelopmentWorkspace_def getProp_def spread_def map_add_def split: option.splits)

lemma getDevelopmentWorkspace_script:
  "getDevelopmentWorkspace args w =
     (case getDevelopmentWorkspaceR (remote w) (ncalls GetDevelopmentWorkspace w)
             (deleteProp ''repositories'' (deleteProp ''ideRuntimes'' args)) of
        Inl e \<Rightarrow> (Inl (Remote e), emit (Call GetDevelopmentWorkspace) w)
      | Inr r \<Rightarrow>
          (Inr (intoDevelopmentWorkspace (getProp args ''organizationName'')
                  (getProp args ''projectName'') (spread args r)),
           emit (Call GetDevelopmentWorkspace) w))"
  by (simp add: getDevelopmentWorkspace_def call_strict split: sum.splits)

lemma getDevelopmentWorkspace_world:
  "snd (getDevelopmentWorkspace args w) = emit (Call GetDevelopmentWorkspace) w"
  by (simp add: getDevelopmentWorkspace_script split: sum.splits)

lemma startDevEnv_script:
  "startDevEnv args w =
     (case startDevelopmentWorkspaceR (remote w) (ncalls StartDevelopmentWorkspace w) args of
        Inl e \<Rightarrow> (Inl (Remote e), emit (Call StartDevelopmentWorkspace) w)
      | Inr r \<Rightarrow> (Inr r, emit (Call StartDevelopmentWorkspace) w))"
  by (simp add: startDevEnv_def call_strict)

lemma pollMde_fn_completed:
  "completed tm w \<Longrightarrow> pollMde_fn args tm lastStatus w = (Inr None, lastStatus, w)"
  by (simp add: pollMde_fn_def)

text \<open>What one iteration does when the timeout is pending and the status fetch is answered.\<close>

lemma pollMde_fn_fetched:
  assumes "\<not> completed tm w"
    and "getDevelopmentWorkspace args w = (Inr resp, w1)"
  shows "pollMde_fn args tm lastStatus w =
     (if lastStatus = JStr ''STARTING''
         \<and> (getProp resp ''status'' = JStr ''STOPPED'' \<or> getProp resp ''status'' = JStr ''STOPPING'')
      then (Inl FailedToStart, lastStatus, w1)
      else if getProp resp ''status'' = JStr ''STOPPED''
      then (case startDevEnv args (emit (Report ''resuming environment...'') w1) of
              (Inl e, w2) \<Rightarrow> (Inl e, lastStatus, w2)
            | (Inr r, w2) \<Rightarrow> (Inr None, JStr ''STOPPED'', w2))
      else if getProp resp ''status'' = JStr ''STOPPING''
      then (Inr None, JStr ''STOPPING'', emit (Report ''waiting for environment to stop...'') w1)
      else (Inr (if getProp resp ''status'' = JStr ''RUNNING'' then Some resp else None),
            getProp resp ''status'', emit (Report ''waiting for environment...'') w1))"
  using assms
  by (auto simp: pollMde_fn_def split: prod.splits sum.splits)

lemma waitUntil_completed:
  "completed tm w \<Longrightarrow>
     waitUntil (pollMde_fn args tm) n lastStatus w = (Inr None, lastStatus, w\<lparr>now := now w + n\<rparr>)"
proof (induction n arbitrary: w)
  case 0
  then show ?case by simp
next
  case (Suc n)
  from Suc.prems have "completed tm (sleep w)"
    by (simp add: completed_def split: option.splits prod.splits)
  from Suc.IH [OF this] Suc.prems show ?case
    by (simp add: pollMde_fn_completed sleep_def)
qed

lemma waitTimeout_pending:
  "\<not> completed tm w \<Longrightarrow> waitTimeout (r, s, w) tm expire cancel = (r, w)"
  by (auto simp: waitTimeout_def completed_def split: option.splits)

lemma waitUntil_iterations:
  "iterations fn k s w = Some (s', w') \<Longrightarrow> waitUntil fn (k + n) s w = waitUntil fn n s' w'"
proof (induction k arbitrary: s w)
  case 0
  then show ?case by simp
next
  case (Suc k)
  then show ?case
    by (auto split: prod.splits sum.splits option.splits)
qed

lemma startEnvironmentWithProgress_afterIterations:
  assumes "afterIterations args status tm k w = Some (ls, v)"
  shows "startEnvironmentWithProgress args status tm (k + n) w
           = waitTimeout (waitUntil (pollMde_fn args tm) n ls v) tm (onExpire args) onCancel"
  using assms
  by (auto simp: afterIterations_def startEnvironmentWithProgress_def waitUntil_iterations
      split: prod.splits sum.splits if_splits)

lemma observedStatus_remote:
  "remote v = remote w \<Longrightarrow> observedStatus args v j = observedStatus args w j"
  by (simp add: observedStatus_def)

lemma getDevelopmentWorkspace_status:
  "getDevelopmentWorkspace args v = (Inr env, va)
     \<Longrightarrow> observedStatus args v (ncalls GetDevelopmentWorkspace v) = Inr (getProp env ''status'')"
  by (auto simp: getDevelopmentWorkspace_script observedStatus_def split: sum.splits)

lemma getDevelopmentWorkspace_rejected:
  "getDevelopmentWorkspace args v = (Inl err, va)
     \<Longrightarrow> \<exists>e. err = Remote e \<and> observedStatus args v (ncalls GetDevelopmentWorkspace v) = Inl e"
  by (auto simp: getDevelopmentWorkspace_script observedStatus_def split: sum.splits)

lemma observed_fetch:
  "observedStatus args v (ncalls GetDevelopmentWorkspace v) = Inr st
     \<Longrightarrow> \<exists>env. getDevelopmentWorkspace args v = (Inr env, emit (Call GetDevelopmentWorkspace) v)
               \<and> getProp env ''status'' = st"
  by (auto simp: getDevelopmentWorkspace_script observedStatus_def split: sum.splits)

lemma pollMde_fn_world:
  assumes "pollMde_fn args tm ls v = (r, ls', v')"
  shows "remote v' = remote v \<and> now v' = now v
       \<and> ncalls StartDevelopmentWorkspace v \<le> ncalls StartDevelopmentWorkspace v'
       \<and> ncalls GetDevelopmentWorkspace v' = (if completed tm v then ncalls GetDevelopmentWorkspace v
                                               else Suc (ncalls GetDevelopmentWorkspace v))"
  using assms
  by (auto simp: pollMde_fn_def getDevelopmentWorkspace_script startDevEnv_script
      split: if_splits prod.splits sum.splits)

lemma pollMde_fn_keeps:
  assumes "\<not> completed tm v" and "getDevelopmentWorkspace args v = (Inr env, va)"
    and "pollMde_fn args tm ls v = (Inr r, ls', v')"
  shows "ls' = getProp env ''status''"
  using assms
  by (auto simp: pollMde_fn_def split: if_splits prod.splits sum.splits)

text \<open>
  What the callback keeps is the status that the latest status request observed, and
  undefined when that request, which can only be the one before the loop, was rejected.
\<close>

lemma pollMde_fn_records:
  assumes inv: "remote v = remote w" "ncalls GetDevelopmentWorkspace w < ncalls GetDevelopmentWorkspace v"
      "ncalls StartDevelopmentWorkspace w \<le> ncalls StartDevelopmentWorkspace v"
      "case observedStatus args w (ncalls GetDevelopmentWorkspace v - 1) of
         Inr st \<Rightarrow> ls = st | Inl e \<Rightarrow> ls = JUndefined"
    and step: "pollMde_fn args tm ls v = (Inr None, ls', v')"
  shows "remote (sleep v') = remote w
       \<and> ncalls GetDevelopmentWorkspace w < ncalls GetDevelopmentWorkspace (sleep v')
       \<and> ncalls StartDevelopmentWorkspace w \<le> ncalls StartDevelopmentWorkspace (sleep v')
       \<and> (case observedStatus args w (ncalls GetDevelopmentWorkspace (sleep v') - 1) of
            Inr st \<Rightarrow> ls' = st | Inl e \<Rightarrow> ls' = JUndefined)"
proof (cases "completed tm v")
  case True
  with step have "ls' = ls" "v' = v" by (simp_all add: pollMde_fn_completed)
  with inv show ?thesis by (simp split: sum.splits)
next
  case False
  from pollMde_fn_world [OF step] False inv(1-3)
  have world: "remote (sleep v') = remote w"
    "ncalls GetDevelopmentWorkspace w < ncalls GetDevelopmentWorkspace (sleep v')"
    "ncalls StartDevelopmentWorkspace w \<le> ncalls StartDevelopmentWorkspace (sleep v')"
    "ncalls GetDevelopmentWorkspace (sleep v') - 1 = ncalls GetDevelopmentWorkspace v"
    by simp_all
  obtain res va where fetch: "getDevelopmentWorkspace args v = (res, va)"
    by (metis prod.exhaust)
  show ?thesis
  proof (cases res)
    case (Inl err)
    with step False fetch show ?thesis by (simp add: pollMde_fn_def)
  next
    case (Inr env)
    have "observedStatus args w (ncalls GetDevelopmentWorkspace v) = Inr (getProp env ''status'')"
      using getDevelopmentWorkspace_status [of args v env va] fetch Inr
        observedStatus_remote [OF inv(1), of args "ncalls GetDevelopmentWorkspace v"]
      by simp
    moreover have "ls' = getProp env ''status''"
      using pollMde_fn_keeps [OF False _ step] fetch Inr by simp
    ultimately show ?thesis
      using world by simp
  qed
qed

lemma iterations_records:
  assumes "iterations (pollMde_fn args tm) k ls0 v0 = Some (ls, v)"
    and "remote v0 = remote w" "ncalls GetDevelopmentWorkspace w < ncalls GetDevelopmentWorkspace v0"
      "ncalls StartDevelopmentWorkspace w \<le> ncalls StartDevelopmentWorkspace v0"
      "case observedStatus args w (ncalls GetDevelopmentWorkspace v0 - 1) of
         Inr st \<Rightarrow> ls0 = st | Inl e \<Rightarrow> ls0 = JUndefined"
  shows "remote v = remote w
       \<and> ncalls GetDevelopmentWorkspace w < ncalls GetDevelopmentWorkspace v
       \<and> ncalls StartDevelopmentWorkspace w \<le> ncalls StartDevelopmentWorkspace v
       \<and> (case observedStatus args w (ncalls GetDevelopmentWorkspace v - 1) of
            Inr st \<Rightarrow> ls = st | Inl e \<Rightarrow> ls = JUndefined)"
  using assms
proof (induction k arbitrary: ls0 v0)
  case 0
  then show ?case by (auto split: sum.splits)
next
  case (Suc k)
  obtain r ls1 v1 where step: "pollMde_fn args tm ls0 v0 = (r, ls1, v1)"
    by (metis prod.exhaust)
  with Suc.prems(1) have r: "r = Inr None"
    and rest: "iterations (pollMde_fn args tm) k ls1 (sleep v1) = Some (ls, v)"
    by (auto split: sum.splits option.splits)
  note next_state = pollMde_fn_records [OF Suc.prems(2-5) step [unfolded r]]
  show ?case
    by (rule Suc.IH [OF rest next_state [THEN conjunct1] next_state [THEN conjunct2, THEN conjunct1]
          next_state [THEN conjunct2, THEN conjunct2, THEN conjunct1]
          next_state [THEN conjunct2, THEN conjunct2, THEN conjunct2]])
qed

lemma afterIterations_records:
  assumes "afterIterations args status tm k w = Some (ls, v)"
  shows "remote v = remote w
       \<and> ncalls GetDevelopmentWorkspace w < ncalls GetDevelopmentWorkspace v
       \<and> ncalls StartDevelopmentWorkspace w \<le> ncalls StartDevelopmentWorkspace v
       \<and> (case observedStatus args w (ncalls GetDevelopmentWorkspace v - 1) of
            Inr st \<Rightarrow> ls = st | Inl e \<Rightarrow> ls = JUndefined)"
proof -
  obtain res w1 where fetch: "getDevelopmentWorkspace args w = (res, w1)"
    by (metis prod.exhaust)
  have w1: "w1 = emit (Call GetDevelopmentWorkspace) w"
    using getDevelopmentWorkspace_world [of args w] fetch by simp
  define v0 where "v0 = emit (Report ''checking status...'') (emit (ShowMessageWithCancel ''CODE.AWS'') w1)"
  have base: "remote v0 = remote w" "ncalls GetDevelopmentWorkspace w < ncalls GetDevelopmentWorkspace v0"
      "ncalls StartDevelopmentWorkspace w \<le> ncalls StartDevelopmentWorkspace v0"
      "ncalls GetDevelopmentWorkspace v0 - Suc 0 = ncalls GetDevelopmentWorkspace w"
    by (simp_all add: v0_def w1)
  show ?thesis
  proof (cases res)
    case (Inl err)
    from getDevelopmentWorkspace_rejected [of args w err w1] fetch Inl
    obtain e where "observedStatus args w (ncalls GetDevelopmentWorkspace w) = Inl e" by auto
    then have "case observedStatus args w (ncalls GetDevelopmentWorkspace v0 - 1) of
         Inr st \<Rightarrow> JUndefined = st | Inl e \<Rightarrow> JUndefined = JUndefined"
      by (simp add: base(4))
    moreover from assms fetch Inl have "iterations (pollMde_fn args tm) k JUndefined v0 = Some (ls, v)"
      by (simp add: afterIterations_def v0_def)
    ultimately show ?thesis
      by (rule iterations_records [OF _ base(1-3), rotated])
  next
    case (Inr env)
    from getDevelopmentWorkspace_status [of args w env w1] fetch Inr
    have "case observedStatus args w (ncalls GetDevelopmentWorkspace v0 - 1) of
         Inr st \<Rightarrow> getProp env ''status'' = st | Inl e \<Rightarrow> getProp env ''status'' = JUndefined"
      by (simp add: base(4))
    moreover from assms fetch Inr have "iterations (pollMde_fn args tm) k (getProp env ''status'') v0 = Some (ls, v)"
      by (auto simp: afterIterations_def v0_def split: if_splits)
    ultimately show ?thesis
      by (rule iterations_records [OF _ base(1-3), rotated])
  qed
qed

lemma pollMde_fn_trace:
  assumes "pollMde_fn args tm ls v = (r, ls', v')"
  shows "filter (\<lambda>e. e \<in> range ShowErrorMessage) (trace v')
           = filter (\<lambda>e. e \<in> range ShowErrorMessage) (trace v)"
  using assms
  by (auto simp: pollMde_fn_def getDevelopmentWorkspace_script startDevEnv_script
      split: if_splits prod.splits sum.splits)

lemma iterations_trace:
  assumes "iterations (pollMde_fn args tm) k ls0 v0 = Some (ls, v)"
  shows "filter (\<lambda>e. e \<in> range ShowErrorMessage) (trace v)
           = filter (\<lambda>e. e \<in> range ShowErrorMessage) (trace v0)"
  using assms
proof (induction k arbitrary: ls0 v0)
  case 0
  then show ?case by simp
next
  case (Suc k)
  obtain r ls1 v1 where step: "pollMde_fn args tm ls0 v0 = (r, ls1, v1)"
    by (metis prod.exhaust)
  with Suc.prems have rest: "iterations (pollMde_fn args tm) k ls1 (sleep v1) = Some (ls, v)"
    by (auto split: sum.splits option.splits)
  from Suc.IH [OF rest] pollMde_fn_trace [OF step] show ?case by simp
qed

lemma afterIterations_trace:
  assumes "afterIterations args status tm k w = Some (ls, v)"
  shows "filter (\<lambda>e. e \<in> range ShowErrorMessage) (trace v)
           = filter (\<lambda>e. e \<in> range ShowErrorMessage) (trace w)"
proof -
  obtain res wa where fetch: "getDevelopmentWorkspace args w = (res, wa)"
    by (metis prod.exhaust)
  have wa: "wa = emit (Call GetDevelopmentWorkspace) w"
    using getDevelopmentWorkspace_world [of args w] fetch by simp
  from assms fetch obtain ls0 where
    "iterations (pollMde_fn args tm) k ls0
       (emit (Report ''checking status...'') (emit (ShowMessageWithCancel ''CODE.AWS'') wa)) = Some (ls, v)"
    by (auto simp: afterIterations_def split: sum.splits if_splits)
  from iterations_trace [OF this] wa show ?thesis by auto
qed

text \<open>How an iteration that ends the loop ends it.\<close>

lemma pollMde_fn_ends:
  assumes inv: "remote v = remote w" "ncalls GetDevelopmentWorkspace w < ncalls GetDevelopmentWorkspace v"
      "ncalls StartDevelopmentWorkspace w \<le> ncalls StartDevelopmentWorkspace v"
      "case observedStatus args w (ncalls GetDevelopmentWorkspace v - 1) of
         Inr st \<Rightarrow> ls = st | Inl e \<Rightarrow> ls = JUndefined"
    and step: "pollMde_fn args tm ls v = (r, ls', v')"
    and ends: "r \<noteq> Inr None"
  shows "(\<exists>env. r = Inr (Some env) \<and> getProp env ''status'' = JStr ''RUNNING''
            \<and> observedStatus args w (ncalls GetDevelopmentWorkspace v' - 1) = Inr (JStr ''RUNNING''))
       \<or> (r = Inl FailedToStart
           \<and> (\<exists>j. ncalls GetDevelopmentWorkspace w \<le> j \<and> Suc j < ncalls GetDevelopmentWorkspace v'
                 \<and> observedStatus args w j = Inr (JStr ''STARTING'')
                 \<and> (observedStatus args w (Suc j) = Inr (JStr ''STOPPED'')
                    \<or> observedStatus args w (Suc j) = Inr (JStr ''STOPPING''))))
       \<or> (\<exists>e. r = Inl (Remote e)
           \<and> ((\<exists>j. ncalls GetDevelopmentWorkspace w < j \<and> j < ncalls GetDevelopmentWorkspace v'
                  \<and> observedStatus args w j = Inl e)
              \<or> (\<exists>j. ncalls StartDevelopmentWorkspace w \<le> j \<and> j < ncalls StartDevelopmentWorkspace v'
                  \<and> startDevelopmentWorkspaceR (remote w) j args = Inl e)))"
proof -
  have pending: "\<not> completed tm v"
    using step ends by (auto simp: pollMde_fn_completed)
  define g where "g = ncalls GetDevelopmentWorkspace v"
  from pollMde_fn_world [OF step] pending
  have gets: "ncalls GetDevelopmentWorkspace v' = Suc g"
    by (simp add: g_def)
  obtain res va where fetch: "getDevelopmentWorkspace args v = (res, va)"
    by (metis prod.exhaust)
  have va: "va = emit (Call GetDevelopmentWorkspace) v"
    using getDevelopmentWorkspace_world [of args v] fetch by simp
  note same = observedStatus_remote [OF inv(1), of args]
  show ?thesis
  proof (cases res)
    case (Inl err)
    from getDevelopmentWorkspace_rejected [of args v err va] fetch Inl same [of g]
    obtain e where e: "err = Remote e" "observedStatus args w g = Inl e"
      by (auto simp: g_def)
    from step pending fetch Inl have "r = Inl err"
      by (simp add: pollMde_fn_def)
    with e gets inv(2) show ?thesis
      by (auto simp: g_def)
  next
    case (Inr env)
    have obs: "observedStatus args w g = Inr (getProp env ''status'')"
      using getDevelopmentWorkspace_status [of args v env va] fetch Inr same [of g]
      by (simp add: g_def)
    note body = pollMde_fn_fetched [OF pending, of args env va ls] fetch [unfolded Inr]
    show ?thesis
    proof (cases "ls = JStr ''STARTING''
        \<and> (getProp env ''status'' = JStr ''STOPPED'' \<or> getProp env ''status'' = JStr ''STOPPING'')")
      case True
      with body step have r: "r = Inl FailedToStart" by simp
      from inv(2) obtain j where j: "g = Suc j" "ncalls GetDevelopmentWorkspace w \<le> j"
        by (cases g) (auto simp: g_def)
      from inv(4) True j(1) have "observedStatus args w j = Inr (JStr ''STARTING'')"
        by (auto simp: g_def split: sum.splits)
      with r j obs True gets show ?thesis by auto
    next
      case False
      show ?thesis
      proof (cases "getProp env ''status'' = JStr ''STOPPED''")
        case True
        show ?thesis
        proof (cases "startDevelopmentWorkspaceR (remote w) (ncalls StartDevelopmentWorkspace v) args")
          case (Inl e)
          with body step False True inv(1) va
          have "r = Inl (Remote e)"
            "v' = emit (Call StartDevelopmentWorkspace) (emit (Report ''resuming environment...'') va)"
            by (auto simp: startDevEnv_script)
          with Inl inv(3) va show ?thesis by auto
        next
          case (Inr x)
          with body step False True inv(1) va have "r = Inr None"
            by (auto simp: startDevEnv_script)
          with ends show ?thesis by simp
        qed
      next
        case stopped: False
        show ?thesis
        proof (cases "getProp env ''status'' = JStr ''RUNNING''")
          case True
          with body step False stopped have "r = Inr (Some env)" by auto
          with True obs gets show ?thesis by simp
        next
          case running: False
          with body step False stopped have "r = Inr None" by (auto split: if_splits)
          with ends show ?thesis by simp
        qed
      qed
    qed
  qed
qed

lemma waitUntil_ends:
  assumes "waitUntil (pollMde_fn args tm) n ls v = (r, s, v')"
    and "remote v = remote w" "ncalls GetDevelopmentWorkspace w < ncalls GetDevelopmentWorkspace v"
      "ncalls StartDevelopmentWorkspace w \<le> ncalls StartDevelopmentWorkspace v"
      "case observedStatus args w (ncalls GetDevelopmentWorkspace v - 1) of
         Inr st \<Rightarrow> ls = st | Inl e \<Rightarrow> ls = JUndefined"
  shows "r = Inr None
       \<or> (\<exists>env. r = Inr (Some env) \<and> getProp env ''status'' = JStr ''RUNNING''
            \<and> observedStatus args w (ncalls GetDevelopmentWorkspace v' - 1) = Inr (JStr ''RUNNING''))
       \<or> (r = Inl FailedToStart
           \<and> (\<exists>j. ncalls GetDevelopmentWorkspace w \<le> j \<and> Suc j < ncalls GetDevelopmentWorkspace v'
                 \<and> observedStatus args w j = Inr (JStr ''STARTING'')
                 \<and> (observedStatus args w (Suc j) = Inr (JStr ''STOPPED'')
                    \<or> observedStatus args w (Suc j) = Inr (JStr ''STOPPING''))))
       \<or> (\<exists>e. r = Inl (Remote e)
           \<and> ((\<exists>j. ncalls GetDevelopmentWorkspace w < j \<and> j < ncalls GetDevelopmentWorkspace v'
                  \<and> observedStatus args w j = Inl e)
              \<or> (\<exists>j. ncalls StartDevelopmentWorkspace w \<le> j \<and> j < ncalls StartDevelopmentWorkspace v'
                  \<and> startDevelopmentWorkspaceR (remote w) j args = Inl e)))"
  using assms
proof (induction n arbitrary: ls v)
  case 0
  then show ?case by simp
next
  case (Suc n)
  obtain r0 ls1 v1 where step: "pollMde_fn args tm ls v = (r0, ls1, v1)"
    by (metis prod.exhaust)
  show ?case
  proof (cases "r0 = Inr None")
    case True
    with step Suc.prems(1) have rest: "waitUntil (pollMde_fn args tm) n ls1 (sleep v1) = (r, s, v')"
      by simp
    note next_state = pollMde_fn_records [OF Suc.prems(2-5) step [unfolded True]]
    show ?thesis
      by (rule Suc.IH [OF rest next_state [THEN conjunct1] next_state [THEN conjunct2, THEN conjunct1]
            next_state [THEN conjunct2, THEN conjunct2, THEN conjunct1]
            next_state [THEN conjunct2, THEN conjunct2, THEN conjunct2]])
  next
    case False
    with step Suc.prems(1) have "r = r0" "v' = v1"
      by (auto split: sum.splits option.splits)
    with pollMde_fn_ends [OF Suc.prems(2-5) step False] show ?thesis
      by simp
  qed
qed

lemma observed_rejected:
  "observedStatus args v (ncalls GetDevelopmentWorkspace v) = Inl e
     \<Longrightarrow> getDevelopmentWorkspace args v = (Inl (Remote e), emit (Call GetDevelopmentWorkspace) v)"
  by (auto simp: getDevelopmentWorkspace_script observedStatus_def split: sum.splits)

text \<open>
  C1. Take any run, at any iteration that finds the timeout pending: when the latest
  status request before it observed STARTING, be it the one before the loop or the one
  of the iteration before, and the request of this iteration observes STOPPED or
  STOPPING, the operation throws the failed-to-start error, and the last thing it has
  done is that request: no further fetch and no start command. The second part is the
  same for the loop alone, entered with the last status STARTING.
\<close>

theorem regression_aborts:
  "(afterIterations args status tm k w = Some (ls, v) \<and> \<not> completed tm v
      \<and> ncalls GetDevelopmentWorkspace v = Suc j
      \<and> observedStatus args w j = Inr (JStr ''STARTING'')
      \<and> (observedStatus args w (Suc j) = Inr (JStr ''STOPPED'')
         \<or> observedStatus args w (Suc j) = Inr (JStr ''STOPPING''))
     \<longrightarrow> startEnvironmentWithProgress args status tm (k + Suc n) w
           = (Inl FailedToStart, emit (Call GetDevelopmentWorkspace) v))
   \<and> (\<not> completed tm w \<and> getDevelopmentWorkspace args w = (Inr resp, wb)
      \<and> (getProp resp ''status'' = JStr ''STOPPED'' \<or> getProp resp ''status'' = JStr ''STOPPING'')
     \<longrightarrow> waitTimeout (waitUntil (pollMde_fn args tm) (Suc n) (JStr ''STARTING'') w) tm (onExpire args) onCancel
           = (Inl FailedToStart, emit (Call GetDevelopmentWorkspace) w))"
proof -
  have loop: "waitTimeout (waitUntil (pollMde_fn args tm) (Suc n) (JStr ''STARTING'') u) tm (onExpire args) onCancel
           = (Inl FailedToStart, emit (Call GetDevelopmentWorkspace) u)"
    if "\<not> completed tm u" and "getDevelopmentWorkspace args u = (Inr resp, ub)"
      and "getProp resp ''status'' = JStr ''STOPPED'' \<or> getProp resp ''status'' = JStr ''STOPPING''"
    for u ub resp
  proof -
    have ub: "ub = emit (Call GetDevelopmentWorkspace) u"
      using getDevelopmentWorkspace_world [of args u] that(2) by simp
    have "waitUntil (pollMde_fn args tm) (Suc n) (JStr ''STARTING'') u
            = (Inl FailedToStart, JStr ''STARTING'', ub)"
      using pollMde_fn_fetched [OF that(1) that(2)] that(3) by auto
    moreover have "\<not> completed tm ub"
      using that(1) ub by simp
    ultimately show ?thesis
      using ub by (simp add: waitTimeout_pending)
  qed
  have whole: "startEnvironmentWithProgress args status tm (k + Suc n) w
           = (Inl FailedToStart, emit (Call GetDevelopmentWorkspace) v)"
    if reached: "afterIterations args status tm k w = Some (ls, v)" and pending: "\<not> completed tm v"
      and latest: "ncalls GetDevelopmentWorkspace v = Suc j"
      and before: "observedStatus args w j = Inr (JStr ''STARTING'')"
      and fresh: "observedStatus args w (Suc j) = Inr (JStr ''STOPPED'')
         \<or> observedStatus args w (Suc j) = Inr (JStr ''STOPPING'')"
  proof -
    from afterIterations_records [OF reached] latest before
    have same: "remote v = remote w" and ls: "ls = JStr ''STARTING''"
      by simp_all
    from fresh latest observedStatus_remote [OF same, of args "Suc j"] obtain st where
      obs: "observedStatus args v (ncalls GetDevelopmentWorkspace v) = Inr st"
      and st: "st = JStr ''STOPPED'' \<or> st = JStr ''STOPPING''"
      by auto
    from observed_fetch [OF obs] obtain env where
      fetch: "getDevelopmentWorkspace args v = (Inr env, emit (Call GetDevelopmentWorkspace) v)"
      and env: "getProp env ''status'' = st"
      by auto
    from loop [OF pending fetch] env st
      startEnvironmentWithProgress_afterIterations [OF reached, of "Suc n"] ls
    show ?thesis by simp
  qed
  from loop whole show ?thesis by blast
qed

theorem regression_aborts_witness:
  "startEnvironmentWithProgress workspaceArgs ''RUNNING'' None (Suc (Suc 0))
       (world0 (statusRemote [''PENDING'', ''STARTING'', ''STOPPED'', ''RUNNING'']))
     = (Inl FailedToStart,
        \<lparr>remote = statusRemote [''PENDING'', ''STARTING'', ''STOPPED'', ''RUNNING''], now = 1,
         trace = [Call GetDevelopmentWorkspace, ShowMessageWithCancel ''CODE.AWS'',
                  Report ''checking status...'',
                  Call GetDevelopmentWorkspace, Report ''waiting for environment...'',
                  Call GetDevelopmentWorkspace]\<rparr>)
   \<and> startEnvironmentWithProgress workspaceArgs ''RUNNING'' None (Suc 0)
       (world0 (statusRemote [''STARTING'', ''STOPPING'']))
     = (Inl FailedToStart,
        \<lparr>remote = statusRemote [''STARTING'', ''STOPPING''], now = 0,
         trace = [Call GetDevelopmentWorkspace, ShowMessageWithCancel ''CODE.AWS'',
                  Report ''checking status...'', Call GetDevelopmentWorkspace]\<rparr>)
   \<and> waitTimeout
         (waitUntil (pollMde_fn workspaceArgs None) (Suc 0) (JStr ''STARTING'')
            (emit (Call GetDevelopmentWorkspace) (world0 (statusRemote [''STARTING'', ''STOPPED'']))))
         None (onExpire workspaceArgs) onCancel
     = (Inl FailedToStart,
        emit (Call GetDevelopmentWorkspace)
          (emit (Call GetDevelopmentWorkspace) (world0 (statusRemote [''STARTING'', ''STOPPED'']))))"
proof -
  have pending: "\<not> completed None u" for u
    by (simp add: completed_def)
  have reached_a: "afterIterations workspaceArgs ''RUNNING'' None (Suc 0)
        (world0 (statusRemote [''PENDING'', ''STARTING'', ''STOPPED'', ''RUNNING'']))
      = Some (JStr ''STARTING'',
          \<lparr>remote = statusRemote [''PENDING'', ''STARTING'', ''STOPPED'', ''RUNNING''], now = 1,
           trace = [Call GetDevelopmentWorkspace, ShowMessageWithCancel ''CODE.AWS'',
                    Report ''checking status...'',
                    Call GetDevelopmentWorkspace, Report ''waiting for environment...'']\<rparr>)"
    by (simp add: afterIterations_def getDevelopmentWorkspace_def call_def pollMde_fn_def completed_def
        statusRemote_def offline_def world0_def ncalls_def emit_def sleep_def workspaceArgs_def
        getProp_def deleteProp_def spread_def intoDevelopmentWorkspace_def)
  have observed_a: "observedStatus workspaceArgs
        (world0 (statusRemote [''PENDING'', ''STARTING'', ''STOPPED'', ''RUNNING''])) (Suc 0)
      = Inr (JStr ''STARTING'')"
    "observedStatus workspaceArgs
        (world0 (statusRemote [''PENDING'', ''STARTING'', ''STOPPED'', ''RUNNING''])) (Suc (Suc 0))
      = Inr (JStr ''STOPPED'')"
    by (simp_all add: observedStatus_def statusRemote_def offline_def world0_def workspaceArgs_def
        getProp_def deleteProp_def spread_def)
  from regression_aborts [where args = workspaceArgs and status = "''RUNNING''" and tm = None
         and k = "Suc 0" and n = 0 and j = "Suc 0" and ls = "JStr ''STARTING''"
         and w = "world0 (statusRemote [''PENDING'', ''STARTING'', ''STOPPED'', ''RUNNING''])"
         and v = "\<lparr>remote = statusRemote [''PENDING'', ''STARTING'', ''STOPPED'', ''RUNNING''], now = 1,
           trace = [Call GetDevelopmentWorkspace, ShowMessageWithCancel ''CODE.AWS'',
                    Report ''checking status...'',
                    Call GetDevelopmentWorkspace, Report ''waiting for environment...'']\<rparr>"]
       reached_a observed_a pending
  have a: "startEnvironmentWithProgress workspaceArgs ''RUNNING'' None (Suc (Suc 0))
       (world0 (statusRemote [''PENDING'', ''STARTING'', ''STOPPED'', ''RUNNING'']))
     = (Inl FailedToStart,
        \<lparr>remote = statusRemote [''PENDING'', ''STARTING'', ''STOPPED'', ''RUNNING''], now = 1,
         trace = [Call GetDevelopmentWorkspace, ShowMessageWithCancel ''CODE.AWS'',
                  Report ''checking status...'',
                  Call GetDevelopmentWorkspace, Report ''waiting for environment...'',
                  Call GetDevelopmentWorkspace]\<rparr>)"
    by (simp add: ncalls_def emit_def)
  have reached_b: "afterIterations workspaceArgs ''RUNNING'' None 0
        (world0 (statusRemote [''STARTING'', ''STOPPING'']))
      = Some (JStr ''STARTING'',
          \<lparr>remote = statusRemote [''STARTING'', ''STOPPING''], now = 0,
           trace = [Call GetDevelopmentWorkspace, ShowMessageWithCancel ''CODE.AWS'',
                    Report ''checking status...'']\<rparr>)"
    by (simp add: afterIterations_def getDevelopmentWorkspace_def call_def
        statusRemote_def offline_def world0_def ncalls_def emit_def workspaceArgs_def
        getProp_def deleteProp_def spread_def intoDevelopmentWorkspace_def)
  have observed_b: "observedStatus workspaceArgs (world0 (statusRemote [''STARTING'', ''STOPPING''])) 0
      = Inr (JStr ''STARTING'')"
    "observedStatus workspaceArgs (world0 (statusRemote [''STARTING'', ''STOPPING''])) (Suc 0)
      = Inr (JStr ''STOPPING'')"
    by (simp_all add: observedStatus_def statusRemote_def offline_def world0_def workspaceArgs_def
        getProp_def deleteProp_def spread_def)
  from regression_aborts [where args = workspaceArgs and status = "''RUNNING''" and tm = None
         and k = 0 and n = 0 and j = 0 and ls = "JStr ''STARTING''"
         and w = "world0 (statusRemote [''STARTING'', ''STOPPING''])"
         and v = "\<lparr>remote = statusRemote [''STARTING'', ''STOPPING''], now = 0,
           trace = [Call GetDevelopmentWorkspace, ShowMessageWithCancel ''CODE.AWS'',
                    Report ''checking status...'']\<rparr>"]
       reached_b observed_b pending
  have b: "startEnvironmentWithProgress workspaceArgs ''RUNNING'' None (Suc 0)
       (world0 (statusRemote [''STARTING'', ''STOPPING'']))
     = (Inl FailedToStart,
        \<lparr>remote = statusRemote [''STARTING'', ''STOPPING''], now = 0,
         trace = [Call GetDevelopmentWorkspace, ShowMessageWithCancel ''CODE.AWS'',
                  Report ''checking status...'', Call GetDevelopmentWorkspace]\<rparr>)"
    by (simp add: ncalls_def emit_def)
  have fetched: "getDevelopmentWorkspace workspaceArgs
        (emit (Call GetDevelopmentWorkspace) (world0 (statusRemote [''STARTING'', ''STOPPED''])))
      = (Inr (intoDevelopmentWorkspace (JStr ''acme'') (JStr ''web'')
                (spread workspaceArgs [(''status'', JStr ''STOPPED'')])),
         emit (Call GetDevelopmentWorkspace)
           (emit (Call GetDevelopmentWorkspace) (world0 (statusRemote [''STARTING'', ''STOPPED'']))))"
    by (simp add: getDevelopmentWorkspace_script statusRemote_def offline_def world0_def ncalls_def
        workspaceArgs_def getProp_def deleteProp_def)
  have st: "getProp (intoDevelopmentWorkspace (JStr ''acme'') (JStr ''web'')
                (spread workspaceArgs [(''status'', JStr ''STOPPED'')])) ''status'' = JStr ''STOPPED''"
    by (simp add: getProp_def spread_def intoDevelopmentWorkspace_def)
  from regression_aborts [where args = workspaceArgs and tm = None and n = 0
         and w = "emit (Call GetDevelopmentWorkspace) (world0 (statusRemote [''STARTING'', ''STOPPED'']))"
         and resp = "intoDevelopmentWorkspace (JStr ''acme'') (JStr ''web'')
                      (spread workspaceArgs [(''status'', JStr ''STOPPED'')])"
         and wb = "emit (Call GetDevelopmentWorkspace)
           (emit (Call GetDevelopmentWorkspace) (world0 (statusRemote [''STARTING'', ''STOPPED''])))"]
       pending fetched st
  have c: "waitTimeout
         (waitUntil (pollMde_fn workspaceArgs None) (Suc 0) (JStr ''STARTING'')
            (emit (Call GetDevelopmentWorkspace) (world0 (statusRemote [''STARTING'', ''STOPPED'']))))
         None (onExpire workspaceArgs) onCancel
     = (Inl FailedToStart,
        emit (Call GetDevelopmentWorkspace)
          (emit (Call GetDevelopmentWorkspace) (world0 (statusRemote [''STARTING'', ''STOPPED'']))))"
    by simp
  from a b c show ?thesis by simp
qed

text \<open>
  C4. With the target RUNNING, a first fetch that finds the workspace RUNNING is the
  whole operation: the workspace is returned and that fetch is all that was done. A
  first fetch that fails is not fatal: the operation goes on to poll with the last status
  undefined, and returns the workspace when the first iteration finds it RUNNING.
\<close>
theorem already_running_or_first_fetch_fails:
  "(getDevelopmentWorkspace args w = (Inr env, wa) \<and> getProp env ''status'' = JStr ''RUNNING''
     \<longrightarrow> startEnvironmentWithProgress args ''RUNNING'' tm n w
           = (Inr (Some env), emit (Call GetDevelopmentWorkspace) w))
   \<and> (getDevelopmentWorkspace args w = (Inl e, wa)
     \<longrightarrow> startEnvironmentWithProgress args status tm n w
           = waitTimeout
               (waitUntil (pollMde_fn args tm) n JUndefined
                  (emit (Report ''checking status...'')
                     (emit (ShowMessageWithCancel ''CODE.AWS'') (emit (Call GetDevelopmentWorkspace) w))))
               tm (onExpire args) onCancel)
   \<and> (getDevelopmentWorkspace args w = (Inl e, wa) \<and> \<not> completed tm w
      \<and> getDevelopmentWorkspace args
           (emit (Report ''checking status...'') (emit (ShowMessageWithCancel ''CODE.AWS'') wa)) = (Inr env, wb)
      \<and> getProp env ''status'' = JStr ''RUNNING''
     \<longrightarrow> startEnvironmentWithProgress args status tm (Suc n) w
           = (Inr (Some env),
              emit (Report ''waiting for environment...'')
                (emit (Call GetDevelopmentWorkspace)
                   (emit (Report ''checking status...'')
                      (emit (ShowMessageWithCancel ''CODE.AWS'') (emit (Call GetDevelopmentWorkspace) w))))))"
proof -
  have after: "getDevelopmentWorkspace args v = (r, v1) \<Longrightarrow> v1 = emit (Call GetDevelopmentWorkspace) v" for v r v1
    using getDevelopmentWorkspace_world [of args v] by simp
  have a: "startEnvironmentWithProgress args ''RUNNING'' tm n w
           = (Inr (Some env), emit (Call GetDevelopmentWorkspace) w)"
    if "getDevelopmentWorkspace args w = (Inr env, wa)" "getProp env ''status'' = JStr ''RUNNING''"
    using that after [OF that(1)] by (simp add: startEnvironmentWithProgress_def)
  have b: "startEnvironmentWithProgress args status tm n w
           = waitTimeout
               (waitUntil (pollMde_fn args tm) n JUndefined
                  (emit (Report ''checking status...'')
                     (emit (ShowMessageWithCancel ''CODE.AWS'') (emit (Call GetDevelopmentWorkspace) w))))
               tm (onExpire args) onCancel"
    if "getDevelopmentWorkspace args w = (Inl e, wa)" for n
    using that after [OF that] by (simp add: startEnvironmentWithProgress_def)
  have c: "startEnvironmentWithProgress args status tm (Suc n) w
           = (Inr (Some env),
              emit (Report ''waiting for environment...'')
                (emit (Call GetDevelopmentWorkspace)
                   (emit (Report ''checking status...'')
                      (emit (ShowMessageWithCancel ''CODE.AWS'') (emit (Call GetDevelopmentWorkspace) w)))))"
    if f: "getDevelopmentWorkspace args w = (Inl e, wa)" and p: "\<not> completed tm w"
      and g: "getDevelopmentWorkspace args
           (emit (Report ''checking status...'') (emit (ShowMessageWithCancel ''CODE.AWS'') wa)) = (Inr env, wb)"
      and r: "getProp env ''status'' = JStr ''RUNNING''"
  proof -
    have wa_eq: "wa = emit (Call GetDevelopmentWorkspace) w" by (rule after [OF f])
    have wb_eq: "wb = emit (Call GetDevelopmentWorkspace)
                      (emit (Report ''checking status...'') (emit (ShowMessageWithCancel ''CODE.AWS'') wa))"
      by (rule after [OF g])
    have pending: "\<not> completed tm (emit (Report ''checking status...'') (emit (ShowMessageWithCancel ''CODE.AWS'') wa))"
      using p wa_eq by simp
    have "pollMde_fn args tm JUndefined
            (emit (Report ''checking status...'') (emit (ShowMessageWithCancel ''CODE.AWS'') wa))
          = (Inr (Some env), JStr ''RUNNING'', emit (Report ''waiting for environment...'') wb)"
      using pollMde_fn_fetched [OF pending g, of JUndefined] r by simp
    then show ?thesis
      using b [OF f, of "Suc n"] wa_eq wb_eq p by (simp add: waitTimeout_pending)
  qed
  from a b c show ?thesis by blast
qed


theorem already_running_or_first_fetch_fails_witness:
  "startEnvironmentWithProgress workspaceArgs ''RUNNING'' None (Suc (Suc (Suc 0)))
       (world0 (statusRemote [''RUNNING'']))
     = (Inr (Some (intoDevelopmentWorkspace (JStr ''acme'') (JStr ''web'')
                     (spread workspaceArgs [(''status'', JStr ''RUNNING'')]))),
        emit (Call GetDevelopmentWorkspace) (world0 (statusRemote [''RUNNING''])))
   \<and> startEnvironmentWithProgress workspaceArgs ''RUNNING'' None 0 (world0 recoveringRemote)
     = waitTimeout
         (waitUntil (pollMde_fn workspaceArgs None) 0 JUndefined
            (emit (Report ''checking status...'')
               (emit (ShowMessageWithCancel ''CODE.AWS'')
                  (emit (Call GetDevelopmentWorkspace) (world0 recoveringRemote)))))
         None (onExpire workspaceArgs) onCancel
   \<and> startEnvironmentWithProgress workspaceArgs ''RUNNING'' None (Suc 0) (world0 recoveringRemote)
     = (Inr (Some (intoDevelopmentWorkspace (JStr ''acme'') (JStr ''web'')
                     (spread workspaceArgs [(''status'', JStr ''RUNNING'')]))),
        emit (Report ''waiting for environment...'')
          (emit (Call GetDevelopmentWorkspace)
             (emit (Report ''checking status...'')
                (emit (ShowMessageWithCancel ''CODE.AWS'')
                   (emit (Call GetDevelopmentWorkspace) (world0 recoveringRemote))))))"
proof -
  have st: "getProp (intoDevelopmentWorkspace (JStr ''acme'') (JStr ''web'')
                     (spread workspaceArgs [(''status'', JStr ''RUNNING'')])) ''status'' = JStr ''RUNNING''"
    by (simp add: getProp_def spread_def intoDevelopmentWorkspace_def)
  have p: "\<not> completed None v" for v
    by (simp add: completed_def)
  have running: "getDevelopmentWorkspace workspaceArgs (world0 (statusRemote [''RUNNING'']))
      = (Inr (intoDevelopmentWorkspace (JStr ''acme'') (JStr ''web'')
                (spread workspaceArgs [(''status'', JStr ''RUNNING'')])),
         emit (Call GetDevelopmentWorkspace) (world0 (statusRemote [''RUNNING''])))"
    by (simp add: getDevelopmentWorkspace_script statusRemote_def offline_def world0_def ncalls_def
        workspaceArgs_def getProp_def deleteProp_def)
  have failed: "getDevelopmentWorkspace workspaceArgs (world0 recoveringRemote)
      = (Inl (Remote ''throttled''), emit (Call GetDevelopmentWorkspace) (world0 recoveringRemote))"
    by (simp add: getDevelopmentWorkspace_script recoveringRemote_def offline_def world0_def ncalls_def)
  have recovered: "getDevelopmentWorkspace workspaceArgs
        (emit (Report ''checking status...'') (emit (ShowMessageWithCancel ''CODE.AWS'')
           (emit (Call GetDevelopmentWorkspace) (world0 recoveringRemote))))
      = (Inr (intoDevelopmentWorkspace (JStr ''acme'') (JStr ''web'')
                (spread workspaceArgs [(''status'', JStr ''RUNNING'')])),
         emit (Call GetDevelopmentWorkspace)
           (emit (Report ''checking status...'') (emit (ShowMessageWithCancel ''CODE.AWS'')
              (emit (Call GetDevelopmentWorkspace) (world0 recoveringRemote)))))"
    by (simp add: getDevelopmentWorkspace_script recoveringRemote_def offline_def world0_def ncalls_def
        workspaceArgs_def getProp_def deleteProp_def)
  from already_running_or_first_fetch_fails [where args = workspaceArgs
         and w = "world0 (statusRemote [''RUNNING''])" and tm = None and n = "Suc (Suc (Suc 0))"
         and env = "intoDevelopmentWorkspace (JStr ''acme'') (JStr ''web'')
                      (spread workspaceArgs [(''status'', JStr ''RUNNING'')])"
         and wa = "emit (Call GetDevelopmentWorkspace) (world0 (statusRemote [''RUNNING'']))"]
       running st
  have a: "startEnvironmentWithProgress workspaceArgs ''RUNNING'' None (Suc (Suc (Suc 0)))
       (world0 (statusRemote [''RUNNING'']))
     = (Inr (Some (intoDevelopmentWorkspace (JStr ''acme'') (JStr ''web'')
                     (spread workspaceArgs [(''status'', JStr ''RUNNING'')]))),
        emit (Call GetDevelopmentWorkspace) (world0 (statusRemote [''RUNNING''])))"
    by simp
  from already_running_or_first_fetch_fails [where args = workspaceArgs
         and w = "world0 recoveringRemote" and tm = None and n = 0 and status = "''RUNNING''"
         and e = "Remote ''throttled''"
         and env = "intoDevelopmentWorkspace (JStr ''acme'') (JStr ''web'')
                      (spread workspaceArgs [(''status'', JStr ''RUNNING'')])"
         and wa = "emit (Call GetDevelopmentWorkspace) (world0 recoveringRemote)"
         and wb = "emit (Call GetDevelopmentWorkspace)
           (emit (Report ''checking status...'') (emit (ShowMessageWithCancel ''CODE.AWS'')
              (emit (Call GetDevelopmentWorkspace) (world0 recoveringRemote))))"]
       failed recovered st p
  have b: "startEnvironmentWithProgress workspaceArgs ''RUNNING'' None 0 (world0 recoveringRemote)
     = waitTimeout
         (waitUntil (pollMde_fn workspaceArgs None) 0 JUndefined
            (emit (Report ''checking status...'')
               (emit (ShowMessageWithCancel ''CODE.AWS'')
                  (emit (Call GetDevelopmentWorkspace) (world0 recoveringRemote)))))
         None (onExpire workspaceArgs) onCancel"
    and c: "startEnvironmentWithProgress workspaceArgs ''RUNNING'' None (Suc 0) (world0 recoveringRemote)
     = (Inr (Some (intoDevelopmentWorkspace (JStr ''acme'') (JStr ''web'')
                     (spread workspaceArgs [(''status'', JStr ''RUNNING'')]))),
        emit (Report ''waiting for environment...'')
          (emit (Call GetDevelopmentWorkspace)
             (emit (Report ''checking status...'')
                (emit (ShowMessageWithCancel ''CODE.AWS'')
                   (emit (Call GetDevelopmentWorkspace) (world0 recoveringRemote))))))"
    by simp_all
  from a b c show ?thesis by simp
qed

lemma completed_mono:
  "completed tm w \<Longrightarrow> now w \<le> now v \<Longrightarrow> completed tm v"
  by (auto simp: completed_def split: option.splits)

text \<open>
  C2, as the code has it. The fetch before the loop issues no start command, whatever it
  sees. When it fails or sees a status other than RUNNING and STARTING, and the fetches
  of the first three iterations then see STOPPED, STARTING and RUNNING, with the start
  command accepted and the timeout pending throughout, the operation returns the
  workspace of the last fetch, which is RUNNING, and what it has done is exactly this:
  one start command, after the fetch that saw STOPPED.
\<close>
theorem stopped_starting_running:
  assumes a: "a = deleteProp ''repositories'' (deleteProp ''ideRuntimes'' args)"
    and g: "g = ncalls GetDevelopmentWorkspace w"
    and init: "case getDevelopmentWorkspaceR (remote w) g a of
                 Inl e \<Rightarrow> True
               | Inr r \<Rightarrow> getProp (spread args r) ''status'' \<noteq> JStr ''RUNNING''
                          \<and> getProp (spread args r) ''status'' \<noteq> JStr ''STARTING''"
    and stopped: "getDevelopmentWorkspaceR (remote w) (g + 1) a = Inr ra"
                 "getProp (spread args ra) ''status'' = JStr ''STOPPED''"
    and accepted: "startDevelopmentWorkspaceR (remote w) (ncalls StartDevelopmentWorkspace w) args = Inr x"
    and starting: "getDevelopmentWorkspaceR (remote w) (g + 2) a = Inr rb"
                  "getProp (spread args rb) ''status'' = JStr ''STARTING''"
    and running: "getDevelopmentWorkspaceR (remote w) (g + 3) a = Inr rc"
                 "getProp (spread args rc) ''status'' = JStr ''RUNNING''"
    and pending: "\<not> completed tm (w\<lparr>now := now w + 2\<rparr>)"
  shows "startEnvironmentWithProgress args status tm (Suc (Suc (Suc n))) w
           = (Inr (Some (intoDevelopmentWorkspace (getProp args ''organizationName'')
                           (getProp args ''projectName'') (spread args rc))),
              w\<lparr>now := now w + 2,
                 trace := trace w @
                   [Call GetDevelopmentWorkspace, ShowMessageWithCancel ''CODE.AWS'',
                    Report ''checking status...'',
                    Call GetDevelopmentWorkspace, Report ''resuming environment...'',
                    Call StartDevelopmentWorkspace,
                    Call GetDevelopmentWorkspace, Report ''waiting for environment...'',
                    Call GetDevelopmentWorkspace, Report ''waiting for environment...'']\<rparr>)"
proof -
  define wp where "wp = emit (Report ''checking status...'')
                          (emit (ShowMessageWithCancel ''CODE.AWS'') (emit (Call GetDevelopmentWorkspace) w))"
  define wq where "wq = sleep (emit (Call StartDevelopmentWorkspace)
                          (emit (Report ''resuming environment...'') (emit (Call GetDevelopmentWorkspace) wp)))"
  define wr where "wr = sleep (emit (Report ''waiting for environment...'')
                          (emit (Call GetDevelopmentWorkspace) wq))"
  define ws where "ws = emit (Report ''waiting for environment...'') (emit (Call GetDevelopmentWorkspace) wr)"
  have notyet: "\<not> completed tm v" if "now v \<le> now w + 2" for v
    using pending that completed_mono [of tm v "w\<lparr>now := now w + 2\<rparr>"] by auto
  obtain ls where start: "startEnvironmentWithProgress args status tm (Suc (Suc (Suc n))) w
        = waitTimeout (waitUntil (pollMde_fn args tm) (Suc (Suc (Suc n))) ls wp) tm (onExpire args) onCancel"
    and ls: "ls \<noteq> JStr ''STARTING''"
    using init a g
    by (cases "getDevelopmentWorkspaceR (remote w) g a")
       (auto simp: startEnvironmentWithProgress_def getDevelopmentWorkspace_script wp_def)
  have first: "pollMde_fn args tm ls wp = (Inr None, JStr ''STOPPED'', emit (Call StartDevelopmentWorkspace)
                          (emit (Report ''resuming environment...'') (emit (Call GetDevelopmentWorkspace) wp)))"
  proof -
    have "getDevelopmentWorkspace args wp
            = (Inr (intoDevelopmentWorkspace (getProp args ''organizationName'')
                      (getProp args ''projectName'') (spread args ra)),
               emit (Call GetDevelopmentWorkspace) wp)"
      using stopped(1) a g by (simp add: getDevelopmentWorkspace_script wp_def)
    from pollMde_fn_fetched [OF _ this, of tm ls] notyet [of wp] ls stopped(2) accepted
    show ?thesis by (simp add: wp_def startDevEnv_script)
  qed
  have second: "pollMde_fn args tm (JStr ''STOPPED'') wq
                  = (Inr None, JStr ''STARTING'', emit (Report ''waiting for environment...'')
                          (emit (Call GetDevelopmentWorkspace) wq))"
  proof -
    have "getDevelopmentWorkspace args wq
            = (Inr (intoDevelopmentWorkspace (getProp args ''organizationName'')
                      (getProp args ''projectName'') (spread args rb)),
               emit (Call GetDevelopmentWorkspace) wq)"
      using starting(1) a g by (simp add: getDevelopmentWorkspace_script wq_def wp_def)
    from pollMde_fn_fetched [OF _ this, of tm "JStr ''STOPPED''"] notyet [of wq] starting(2)
    show ?thesis by (simp add: wq_def wp_def)
  qed
  have third: "pollMde_fn args tm (JStr ''STARTING'') wr
                  = (Inr (Some (intoDevelopmentWorkspace (getProp args ''organizationName'')
                      (getProp args ''projectName'') (spread args rc))), JStr ''RUNNING'', ws)"
  proof -
    have "getDevelopmentWorkspace args wr
            = (Inr (intoDevelopmentWorkspace (getProp args ''organizationName'')
                      (getProp args ''projectName'') (spread args rc)),
               emit (Call GetDevelopmentWorkspace) wr)"
      using running(1) a g by (simp add: getDevelopmentWorkspace_script wr_def wq_def wp_def numeral_3_eq_3)
    from pollMde_fn_fetched [OF _ this, of tm "JStr ''STARTING''"] notyet [of wr] running(2)
    show ?thesis by (simp add: ws_def wr_def wq_def wp_def)
  qed
  have loop: "waitUntil (pollMde_fn args tm) (Suc (Suc (Suc n))) ls wp
                = (Inr (Some (intoDevelopmentWorkspace (getProp args ''organizationName'')
                      (getProp args ''projectName'') (spread args rc))), JStr ''RUNNING'', ws)"
    using first second third by (simp add: wq_def wr_def)
  have "\<not> completed tm ws"
    using notyet [of ws] by (simp add: ws_def wr_def wq_def wp_def)
  with start loop have "startEnvironmentWithProgress args status tm (Suc (Suc (Suc n))) w
      = (Inr (Some (intoDevelopmentWorkspace (getProp args ''organizationName'')
                      (getProp args ''projectName'') (spread args rc))), ws)"
    by (simp add: waitTimeout_pending)
  moreover have "ws = w\<lparr>now := now w + 2,
                 trace := trace w @
                   [Call GetDevelopmentWorkspace, ShowMessageWithCancel ''CODE.AWS'',
                    Report ''checking status...'',
                    Call GetDevelopmentWorkspace, Report ''resuming environment...'',
                    Call StartDevelopmentWorkspace,
                    Call GetDevelopmentWorkspace, Report ''waiting for environment...'',
                    Call GetDevelopmentWorkspace, Report ''waiting for environment...'']\<rparr>"
    by (simp add: ws_def wr_def wq_def wp_def emit_def sleep_def)
  ultimately show ?thesis by simp
qed


theorem stopped_starting_running_witness:
  "startEnvironmentWithProgress workspaceArgs ''RUNNING'' None (Suc (Suc (Suc 0)))
       (world0 (statusRemote [''STOPPED'', ''STOPPED'', ''STARTING'', ''RUNNING'']))
     = (Inr (Some (intoDevelopmentWorkspace (JStr ''acme'') (JStr ''web'')
                     (spread workspaceArgs [(''status'', JStr ''RUNNING'')]))),
        \<lparr>remote = statusRemote [''STOPPED'', ''STOPPED'', ''STARTING'', ''RUNNING''], now = 2,
         trace = [Call GetDevelopmentWorkspace, ShowMessageWithCancel ''CODE.AWS'',
                  Report ''checking status...'',
                  Call GetDevelopmentWorkspace, Report ''resuming environment...'',
                  Call StartDevelopmentWorkspace,
                  Call GetDevelopmentWorkspace, Report ''waiting for environment...'',
                  Call GetDevelopmentWorkspace, Report ''waiting for environment...'']\<rparr>)"
proof -
  have r: "getDevelopmentWorkspaceR (remote (world0 (statusRemote [''STOPPED'', ''STOPPED'', ''STARTING'', ''RUNNING''])))
             k workspaceArgs
           = (if k < 4 then Inr [(''status'', JStr ([''STOPPED'', ''STOPPED'', ''STARTING'', ''RUNNING''] ! k))]
              else Inl ''gone'')" for k
    by (simp add: world0_def statusRemote_def offline_def)
  have s: "startDevelopmentWorkspaceR (remote (world0 (statusRemote [''STOPPED'', ''STOPPED'', ''STARTING'', ''RUNNING''])))
             k workspaceArgs = Inr []" for k
    by (simp add: world0_def statusRemote_def offline_def)
  have d: "workspaceArgs = deleteProp ''repositories'' (deleteProp ''ideRuntimes'' workspaceArgs)"
    by (simp add: workspaceArgs_def deleteProp_def)
  have g: "0 = ncalls GetDevelopmentWorkspace (world0 (statusRemote [''STOPPED'', ''STOPPED'', ''STARTING'', ''RUNNING'']))"
    by (simp add: world0_def ncalls_def)
  have st: "getProp (spread workspaceArgs [(''status'', JStr v)]) ''status'' = JStr v" for v
    by (simp add: getProp_def spread_def)
  have p: "\<not> completed None v" for v
    by (simp add: completed_def)
  from stopped_starting_running [where a = workspaceArgs and args = workspaceArgs and g = 0
         and w = "world0 (statusRemote [''STOPPED'', ''STOPPED'', ''STARTING'', ''RUNNING''])"
         and ra = "[(''status'', JStr ''STOPPED'')]" and rb = "[(''status'', JStr ''STARTING'')]"
         and rc = "[(''status'', JStr ''RUNNING'')]" and x = "[]" and tm = None and n = 0
         and status = "''RUNNING''", OF d g]
       r s st p
  show ?thesis
    by (simp add: world0_def workspaceArgs_def getProp_def)
qed

text \<open>
  C2 as stated fails when STOPPED is what the fetch before the loop sees: the three
  status fetches of the run see STOPPED, STARTING and RUNNING, the workspace is returned,
  and no start command was issued.
\<close>
theorem stopped_starting_running_counterexample:
  "map (\<lambda>k. getDevelopmentWorkspaceR (statusRemote [''STOPPED'', ''STARTING'', ''RUNNING'']) k workspaceArgs)
       [0, Suc 0, Suc (Suc 0)]
     = [Inr [(''status'', JStr ''STOPPED'')], Inr [(''status'', JStr ''STARTING'')],
        Inr [(''status'', JStr ''RUNNING'')]]
   \<and> startEnvironmentWithProgress workspaceArgs ''RUNNING'' None (Suc (Suc (Suc 0)))
       (world0 (statusRemote [''STOPPED'', ''STARTING'', ''RUNNING'']))
     = (Inr (Some (intoDevelopmentWorkspace (JStr ''acme'') (JStr ''web'')
                     (spread workspaceArgs [(''status'', JStr ''RUNNING'')]))),
        \<lparr>remote = statusRemote [''STOPPED'', ''STARTING'', ''RUNNING''], now = 1,
         trace = [Call GetDevelopmentWorkspace, ShowMessageWithCancel ''CODE.AWS'',
                  Report ''checking status...'',
                  Call GetDevelopmentWorkspace, Report ''waiting for environment...'',
                  Call GetDevelopmentWorkspace, Report ''waiting for environment...'']\<rparr>)
   \<and> count_list
         (trace (snd (startEnvironmentWithProgress workspaceArgs ''RUNNING'' None (Suc (Suc (Suc 0)))
                        (world0 (statusRemote [''STOPPED'', ''STARTING'', ''RUNNING''])))))
         (Call StartDevelopmentWorkspace) = 0"
proof -
  have run: "startEnvironmentWithProgress workspaceArgs ''RUNNING'' None (Suc (Suc (Suc 0)))
       (world0 (statusRemote [''STOPPED'', ''STARTING'', ''RUNNING'']))
     = (Inr (Some (intoDevelopmentWorkspace (JStr ''acme'') (JStr ''web'')
                     (spread workspaceArgs [(''status'', JStr ''RUNNING'')]))),
        \<lparr>remote = statusRemote [''STOPPED'', ''STARTING'', ''RUNNING''], now = 1,
         trace = [Call GetDevelopmentWorkspace, ShowMessageWithCancel ''CODE.AWS'',
                  Report ''checking status...'',
                  Call GetDevelopmentWorkspace, Report ''waiting for environment...'',
                  Call GetDevelopmentWorkspace, Report ''waiting for environment...'']\<rparr>)"
    by (simp add: startEnvironmentWithProgress_def getDevelopmentWorkspace_def call_def pollMde_fn_def
        waitTimeout_def completed_def statusRemote_def offline_def world0_def ncalls_def emit_def sleep_def
        workspaceArgs_def getProp_def deleteProp_def spread_def intoDevelopmentWorkspace_def)
  have script: "map (\<lambda>k. getDevelopmentWorkspaceR (statusRemote [''STOPPED'', ''STARTING'', ''RUNNING'']) k workspaceArgs)
       [0, Suc 0, Suc (Suc 0)]
     = [Inr [(''status'', JStr ''STOPPED'')], Inr [(''status'', JStr ''STARTING'')],
        Inr [(''status'', JStr ''RUNNING'')]]"
    by (simp add: statusRemote_def offline_def)
  show ?thesis
    unfolding run using script by simp
qed

text \<open>
  C3, as the code has it. Take any run, at any iteration. When the timeout is found
  expired, the operation resolves to undefined and the last thing it does is to show the
  error message; when it is found cancelled, the operation resolves to undefined and
  does nothing more; when the time of the loop ends with the timeout pending, it resolves
  to undefined as well. Up to that point no run has shown an error message. A status
  request that is rejected inside the loop is thrown to the caller, and so is a rejected
  start command. Every run ends in one of four ways: undefined; the workspace that the
  last status request observed RUNNING; the failed-to-start error, after two successive
  status requests that observed STARTING and then STOPPED or STOPPING; or the remote
  error of a request, made inside the loop, that the service rejected.
\<close>

theorem timeout_or_cancel_gives_no_result:
  "(afterIterations args status tm k w = Some (ls, v) \<and> tm = Some (t, Expired) \<and> t \<le> now v
     \<longrightarrow> startEnvironmentWithProgress args status tm (k + n) w
           = (Inr None,
              emit (ShowErrorMessage (''Timeout waiting for workspace: '' @ localizeArg (getProp args ''id'')))
                (v\<lparr>now := now v + n\<rparr>)))
   \<and> (afterIterations args status tm k w = Some (ls, v) \<and> tm = Some (t, Cancelled) \<and> t \<le> now v
     \<longrightarrow> startEnvironmentWithProgress args status tm (k + n) w = (Inr None, v\<lparr>now := now v + n\<rparr>))
   \<and> (afterIterations args status tm k w = Some (ls, v) \<and> \<not> completed tm v
     \<longrightarrow> startEnvironmentWithProgress args status tm k w = (Inr None, v))
   \<and> (afterIterations args status tm k w = Some (ls, v)
     \<longrightarrow> filter (\<lambda>e. e \<in> range ShowErrorMessage) (trace v)
           = filter (\<lambda>e. e \<in> range ShowErrorMessage) (trace w))
   \<and> (afterIterations args status tm k w = Some (ls, v) \<and> \<not> completed tm v
      \<and> observedStatus args w (ncalls GetDevelopmentWorkspace v) = Inl e
     \<longrightarrow> startEnvironmentWithProgress args status tm (k + Suc n) w
           = (Inl (Remote e), emit (Call GetDevelopmentWorkspace) v))
   \<and> (afterIterations args status tm k w = Some (ls, v) \<and> \<not> completed tm v
      \<and> observedStatus args w (ncalls GetDevelopmentWorkspace v) = Inr (JStr ''STOPPED'')
      \<and> ls \<noteq> JStr ''STARTING''
      \<and> startDevelopmentWorkspaceR (remote w) (ncalls StartDevelopmentWorkspace v) args = Inl e
     \<longrightarrow> startEnvironmentWithProgress args status tm (k + Suc n) w
           = (Inl (Remote e),
              emit (Call StartDevelopmentWorkspace)
                (emit (Report ''resuming environment...'') (emit (Call GetDevelopmentWorkspace) v))))
   \<and> (startEnvironmentWithProgress args status tm n w = (r, w')
     \<longrightarrow> r = Inr None
       \<or> (\<exists>env. r = Inr (Some env) \<and> getProp env ''status'' = JStr ''RUNNING''
            \<and> observedStatus args w (ncalls GetDevelopmentWorkspace w' - 1) = Inr (JStr ''RUNNING''))
       \<or> (r = Inl FailedToStart
           \<and> (\<exists>j. ncalls GetDevelopmentWorkspace w \<le> j \<and> Suc j < ncalls GetDevelopmentWorkspace w'
                 \<and> observedStatus args w j = Inr (JStr ''STARTING'')
                 \<and> (observedStatus args w (Suc j) = Inr (JStr ''STOPPED'')
                    \<or> observedStatus args w (Suc j) = Inr (JStr ''STOPPING''))))
       \<or> (\<exists>e. r = Inl (Remote e)
           \<and> ((\<exists>j. ncalls GetDevelopmentWorkspace w < j \<and> j < ncalls GetDevelopmentWorkspace w'
                  \<and> observedStatus args w j = Inl e)
              \<or> (\<exists>j. ncalls StartDevelopmentWorkspace w \<le> j \<and> j < ncalls StartDevelopmentWorkspace w'
                  \<and> startDevelopmentWorkspaceR (remote w) j args = Inl e))))"
proof -
  have expired: "startEnvironmentWithProgress args status tm (k + n) w
           = (Inr None,
              emit (ShowErrorMessage (''Timeout waiting for workspace: '' @ localizeArg (getProp args ''id'')))
                (v\<lparr>now := now v + n\<rparr>))"
    if reached: "afterIterations args status tm k w = Some (ls, v)"
      and "tm = Some (t, Expired)" "t \<le> now v"
  proof -
    from that have "completed tm v" by (simp add: completed_def)
    from waitUntil_completed [OF this] that(2,3)
      startEnvironmentWithProgress_afterIterations [OF reached, of n]
    show ?thesis
      by (simp add: waitTimeout_def onExpire_def)
  qed
  have cancelled: "startEnvironmentWithProgress args status tm (k + n) w = (Inr None, v\<lparr>now := now v + n\<rparr>)"
    if reached: "afterIterations args status tm k w = Some (ls, v)"
      and "tm = Some (t, Cancelled)" "t \<le> now v"
  proof -
    from that have "completed tm v" by (simp add: completed_def)
    from waitUntil_completed [OF this] that(2,3)
      startEnvironmentWithProgress_afterIterations [OF reached, of n]
    show ?thesis
      by (simp add: waitTimeout_def onCancel_def)
  qed
  have exhausted: "startEnvironmentWithProgress args status tm k w = (Inr None, v)"
    if reached: "afterIterations args status tm k w = Some (ls, v)" and pending: "\<not> completed tm v"
    using startEnvironmentWithProgress_afterIterations [OF reached, of 0] pending
    by (simp add: waitTimeout_pending)
  have quiet: "filter (\<lambda>e. e \<in> range ShowErrorMessage) (trace v)
           = filter (\<lambda>e. e \<in> range ShowErrorMessage) (trace w)"
    if "afterIterations args status tm k w = Some (ls, v)"
    using that by (rule afterIterations_trace)
  have fetch_rejected: "startEnvironmentWithProgress args status tm (k + Suc n) w
           = (Inl (Remote e), emit (Call GetDevelopmentWorkspace) v)"
    if reached: "afterIterations args status tm k w = Some (ls, v)" and pending: "\<not> completed tm v"
      and rejected: "observedStatus args w (ncalls GetDevelopmentWorkspace v) = Inl e"
  proof -
    from afterIterations_records [OF reached] have same: "remote v = remote w" by simp
    from rejected observedStatus_remote [OF same, of args "ncalls GetDevelopmentWorkspace v"]
    have "observedStatus args v (ncalls GetDevelopmentWorkspace v) = Inl e" by simp
    from observed_rejected [OF this] pending
    have "pollMde_fn args tm ls v = (Inl (Remote e), ls, emit (Call GetDevelopmentWorkspace) v)"
      by (simp add: pollMde_fn_def)
    with startEnvironmentWithProgress_afterIterations [OF reached, of "Suc n"] pending
    show ?thesis
      by (simp add: waitTimeout_pending)
  qed
  have start_rejected: "startEnvironmentWithProgress args status tm (k + Suc n) w
           = (Inl (Remote e),
              emit (Call StartDevelopmentWorkspace)
                (emit (Report ''resuming environment...'') (emit (Call GetDevelopmentWorkspace) v)))"
    if reached: "afterIterations args status tm k w = Some (ls, v)" and pending: "\<not> completed tm v"
      and stopped: "observedStatus args w (ncalls GetDevelopmentWorkspace v) = Inr (JStr ''STOPPED'')"
      and ls: "ls \<noteq> JStr ''STARTING''"
      and rejected: "startDevelopmentWorkspaceR (remote w) (ncalls StartDevelopmentWorkspace v) args = Inl e"
  proof -
    from afterIterations_records [OF reached] have same: "remote v = remote w" by simp
    from stopped observedStatus_remote [OF same, of args "ncalls GetDevelopmentWorkspace v"]
    have "observedStatus args v (ncalls GetDevelopmentWorkspace v) = Inr (JStr ''STOPPED'')" by simp
    from observed_fetch [OF this] obtain env where
      fetch: "getDevelopmentWorkspace args v = (Inr env, emit (Call GetDevelopmentWorkspace) v)"
      and env: "getProp env ''status'' = JStr ''STOPPED''"
      by auto
    from pollMde_fn_fetched [OF pending fetch, of ls] env ls rejected same
    have "pollMde_fn args tm ls v
            = (Inl (Remote e), ls,
               emit (Call StartDevelopmentWorkspace)
                 (emit (Report ''resuming environment...'') (emit (Call GetDevelopmentWorkspace) v)))"
      by (simp add: startDevEnv_script)
    with startEnvironmentWithProgress_afterIterations [OF reached, of "Suc n"] pending
    show ?thesis
      by (simp add: waitTimeout_pending)
  qed
  have outcome: "r = Inr None
       \<or> (\<exists>env. r = Inr (Some env) \<and> getProp env ''status'' = JStr ''RUNNING''
            \<and> observedStatus args w (ncalls GetDevelopmentWorkspace w' - 1) = Inr (JStr ''RUNNING''))
       \<or> (r = Inl FailedToStart
           \<and> (\<exists>j. ncalls GetDevelopmentWorkspace w \<le> j \<and> Suc j < ncalls GetDevelopmentWorkspace w'
                 \<and> observedStatus args w j = Inr (JStr ''STARTING'')
                 \<and> (observedStatus args w (Suc j) = Inr (JStr ''STOPPED'')
                    \<or> observedStatus args w (Suc j) = Inr (JStr ''STOPPING''))))
       \<or> (\<exists>e. r = Inl (Remote e)
           \<and> ((\<exists>j. ncalls GetDevelopmentWorkspace w < j \<and> j < ncalls GetDevelopmentWorkspace w'
                  \<and> observedStatus args w j = Inl e)
              \<or> (\<exists>j. ncalls StartDevelopmentWorkspace w \<le> j \<and> j < ncalls StartDevelopmentWorkspace w'
                  \<and> startDevelopmentWorkspaceR (remote w) j args = Inl e)))"
    if run: "startEnvironmentWithProgress args status tm n w = (r, w')"
  proof (cases "afterIterations args status tm 0 w")
    case None
    then obtain env where fetch: "getDevelopmentWorkspace args w = (Inr env, emit (Call GetDevelopmentWorkspace) w)"
      and running: "getProp env ''status'' = JStr ''RUNNING''" and target: "status = ''RUNNING''"
      using getDevelopmentWorkspace_world [of args w]
      by (cases "getDevelopmentWorkspace args w")
         (auto simp: afterIterations_def split: sum.splits if_splits)
    from fetch running target run have "r = Inr (Some env)" "w' = emit (Call GetDevelopmentWorkspace) w"
      by (simp_all add: startEnvironmentWithProgress_def)
    moreover from getDevelopmentWorkspace_status [OF fetch] running
    have "observedStatus args w (ncalls GetDevelopmentWorkspace w) = Inr (JStr ''RUNNING'')" by simp
    ultimately show ?thesis using running by simp
  next
    case (Some state)
    then obtain ls0 v0 where reached: "afterIterations args status tm 0 w = Some (ls0, v0)"
      by (cases state) simp
    note inv = afterIterations_records [OF reached]
    obtain r1 s1 v1 where loop: "waitUntil (pollMde_fn args tm) n ls0 v0 = (r1, s1, v1)"
      by (metis prod.exhaust)
    from startEnvironmentWithProgress_afterIterations [OF reached, of n] run loop
    have raced: "waitTimeout (r1, s1, v1) tm (onExpire args) onCancel = (r, w')"
      by simp
    note ends = waitUntil_ends [OF loop inv [THEN conjunct1] inv [THEN conjunct2, THEN conjunct1]
            inv [THEN conjunct2, THEN conjunct2, THEN conjunct1]
            inv [THEN conjunct2, THEN conjunct2, THEN conjunct2]]
    show ?thesis
    proof (cases "r = Inr None")
      case True
      then show ?thesis by simp
    next
      case False
      with raced have "r = r1" "w' = v1"
        by (auto simp: waitTimeout_def onExpire_def onCancel_def
            split: option.splits if_splits completion.splits)
      with ends show ?thesis by simp
    qed
  qed
  from expired cancelled exhausted quiet fetch_rejected start_rejected outcome
  show ?thesis by blast
qed

theorem timeout_or_cancel_gives_no_result_witness:
  "startEnvironmentWithProgress workspaceArgs ''RUNNING'' (Some (Suc 0, Expired)) (Suc (Suc 0))
       (world0 (statusRemote [''STARTING'', ''STARTING'', ''STARTING'']))
     = (Inr None,
        \<lparr>remote = statusRemote [''STARTING'', ''STARTING'', ''STARTING''], now = 2,
         trace = [Call GetDevelopmentWorkspace, ShowMessageWithCancel ''CODE.AWS'',
                  Report ''checking status...'',
                  Call GetDevelopmentWorkspace, Report ''waiting for environment...'',
                  ShowErrorMessage ''Timeout waiting for workspace: ws-1'']\<rparr>)
   \<and> startEnvironmentWithProgress workspaceArgs ''RUNNING'' (Some (Suc 0, Cancelled)) (Suc (Suc 0))
       (world0 (statusRemote [''STARTING'', ''STARTING'', ''STARTING'']))
     = (Inr None,
        \<lparr>remote = statusRemote [''STARTING'', ''STARTING'', ''STARTING''], now = 2,
         trace = [Call GetDevelopmentWorkspace, ShowMessageWithCancel ''CODE.AWS'',
                  Report ''checking status...'',
                  Call GetDevelopmentWorkspace, Report ''waiting for environment...'']\<rparr>)
   \<and> startEnvironmentWithProgress workspaceArgs ''RUNNING'' None (Suc 0)
       (world0 (statusRemote [''STARTING'', ''STARTING'', ''STARTING'']))
     = (Inr None,
        \<lparr>remote = statusRemote [''STARTING'', ''STARTING'', ''STARTING''], now = 1,
         trace = [Call GetDevelopmentWorkspace, ShowMessageWithCancel ''CODE.AWS'',
                  Report ''checking status...'',
                  Call GetDevelopmentWorkspace, Report ''waiting for environment...'']\<rparr>)
   \<and> filter (\<lambda>e. e \<in> range ShowErrorMessage)
         [Call GetDevelopmentWorkspace, ShowMessageWithCancel ''CODE.AWS'', Report ''checking status...'',
          Call GetDevelopmentWorkspace, Report ''waiting for environment...''] = []
   \<and> startEnvironmentWithProgress workspaceArgs ''RUNNING'' None (Suc 0)
       (world0 (statusRemote [''STOPPED'']))
     = (Inl (Remote ''gone''),
        \<lparr>remote = statusRemote [''STOPPED''], now = 0,
         trace = [Call GetDevelopmentWorkspace, ShowMessageWithCancel ''CODE.AWS'',
                  Report ''checking status...'', Call GetDevelopmentWorkspace]\<rparr>)
   \<and> startEnvironmentWithProgress workspaceArgs ''RUNNING'' None (Suc 0)
       (world0 (refusingRemote [''STOPPED'', ''STOPPED'']))
     = (Inl (Remote ''denied''),
        \<lparr>remote = refusingRemote [''STOPPED'', ''STOPPED''], now = 0,
         trace = [Call GetDevelopmentWorkspace, ShowMessageWithCancel ''CODE.AWS'',
                  Report ''checking status...'',
                  Call GetDevelopmentWorkspace, Report ''resuming environment...'',
                  Call StartDevelopmentWorkspace]\<rparr>)
   \<and> ((\<exists>j. 0 < j \<and> j < Suc (Suc 0)
            \<and> observedStatus workspaceArgs (world0 (refusingRemote [''STOPPED'', ''STOPPED''])) j = Inl ''denied'')
      \<or> (\<exists>j. j < Suc 0
            \<and> startDevelopmentWorkspaceR (refusingRemote [''STOPPED'', ''STOPPED'']) j workspaceArgs
                = Inl ''denied''))"
proof -
  have reached: "afterIterations workspaceArgs ''RUNNING'' tm (Suc 0)
        (world0 (statusRemote [''STARTING'', ''STARTING'', ''STARTING'']))
      = Some (JStr ''STARTING'',
          \<lparr>remote = statusRemote [''STARTING'', ''STARTING'', ''STARTING''], now = 1,
           trace = [Call GetDevelopmentWorkspace, ShowMessageWithCancel ''CODE.AWS'',
                    Report ''checking status...'',
                    Call GetDevelopmentWorkspace, Report ''waiting for environment...'']\<rparr>)"
    if "tm = None \<or> tm = Some (Suc 0, Expired) \<or> tm = Some (Suc 0, Cancelled)" for tm
    using that
    by (auto simp: afterIterations_def getDevelopmentWorkspace_def call_def pollMde_fn_def completed_def
        statusRemote_def offline_def world0_def ncalls_def emit_def sleep_def workspaceArgs_def
        getProp_def deleteProp_def spread_def intoDevelopmentWorkspace_def)
  have id: "localizeArg (getProp workspaceArgs ''id'') = ''ws-1''"
    by (simp add: workspaceArgs_def getProp_def)
  from timeout_or_cancel_gives_no_result [where args = workspaceArgs and status = "''RUNNING''"
         and tm = "Some (Suc 0, Expired)" and t = "Suc 0" and k = "Suc 0" and n = "Suc 0"
         and ls = "JStr ''STARTING''"
         and w = "world0 (statusRemote [''STARTING'', ''STARTING'', ''STARTING''])"
         and v = "\<lparr>remote = statusRemote [''STARTING'', ''STARTING'', ''STARTING''], now = 1,
           trace = [Call GetDevelopmentWorkspace, ShowMessageWithCancel ''CODE.AWS'',
                    Report ''checking status...'',
                    Call GetDevelopmentWorkspace, Report ''waiting for environment...'']\<rparr>"]
       reached [of "Some (Suc 0, Expired)"] id
  have a: "startEnvironmentWithProgress workspaceArgs ''RUNNING'' (Some (Suc 0, Expired)) (Suc (Suc 0))
       (world0 (statusRemote [''STARTING'', ''STARTING'', ''STARTING'']))
     = (Inr None,
        \<lparr>remote = statusRemote [''STARTING'', ''STARTING'', ''STARTING''], now = 2,
         trace = [Call GetDevelopmentWorkspace, ShowMessageWithCancel ''CODE.AWS'',
                  Report ''checking status...'',
                  Call GetDevelopmentWorkspace, Report ''waiting for environment...'',
                  ShowErrorMessage ''Timeout waiting for workspace: ws-1'']\<rparr>)"
    by (simp add: emit_def)
  from timeout_or_cancel_gives_no_result [where args = workspaceArgs and status = "''RUNNING''"
         and tm = "Some (Suc 0, Cancelled)" and t = "Suc 0" and k = "Suc 0" and n = "Suc 0"
         and ls = "JStr ''STARTING''"
         and w = "world0 (statusRemote [''STARTING'', ''STARTING'', ''STARTING''])"
         and v = "\<lparr>remote = statusRemote [''STARTING'', ''STARTING'', ''STARTING''], now = 1,
           trace = [Call GetDevelopmentWorkspace, ShowMessageWithCancel ''CODE.AWS'',
                    Report ''checking status...'',
                    Call GetDevelopmentWorkspace, Report ''waiting for environment...'']\<rparr>"]
       reached [of "Some (Suc 0, Cancelled)"]
  have b: "startEnvironmentWithProgress workspaceArgs ''RUNNING'' (Some (Suc 0, Cancelled)) (Suc (Suc 0))
       (world0 (statusRemote [''STARTING'', ''STARTING'', ''STARTING'']))
     = (Inr None,
        \<lparr>remote = statusRemote [''STARTING'', ''STARTING'', ''STARTING''], now = 2,
         trace = [Call GetDevelopmentWorkspace, ShowMessageWithCancel ''CODE.AWS'',
                  Report ''checking status...'',
                  Call GetDevelopmentWorkspace, Report ''waiting for environment...'']\<rparr>)"
    and d: "filter (\<lambda>e. e \<in> range ShowErrorMessage)
         [Call GetDevelopmentWorkspace, ShowMessageWithCancel ''CODE.AWS'', Report ''checking status...'',
          Call GetDevelopmentWorkspace, Report ''waiting for environment...''] = []"
    by (simp_all add: world0_def)
  from timeout_or_cancel_gives_no_result [where args = workspaceArgs and status = "''RUNNING''"
         and tm = None and k = "Suc 0" and ls = "JStr ''STARTING''"
         and w = "world0 (statusRemote [''STARTING'', ''STARTING'', ''STARTING''])"
         and v = "\<lparr>remote = statusRemote [''STARTING'', ''STARTING'', ''STARTING''], now = 1,
           trace = [Call GetDevelopmentWorkspace, ShowMessageWithCancel ''CODE.AWS'',
                    Report ''checking status...'',
                    Call GetDevelopmentWorkspace, Report ''waiting for environment...'']\<rparr>"]
       reached [of None]
  have c: "startEnvironmentWithProgress workspaceArgs ''RUNNING'' None (Suc 0)
       (world0 (statusRemote [''STARTING'', ''STARTING'', ''STARTING'']))
     = (Inr None,
        \<lparr>remote = statusRemote [''STARTING'', ''STARTING'', ''STARTING''], now = 1,
         trace = [Call GetDevelopmentWorkspace, ShowMessageWithCancel ''CODE.AWS'',
                  Report ''checking status...'',
                  Call GetDevelopmentWorkspace, Report ''waiting for environment...'']\<rparr>)"
    by (simp add: completed_def)
  have reached_e: "afterIterations workspaceArgs ''RUNNING'' None 0 (world0 (statusRemote [''STOPPED'']))
      = Some (JStr ''STOPPED'',
          \<lparr>remote = statusRemote [''STOPPED''], now = 0,
           trace = [Call GetDevelopmentWorkspace, ShowMessageWithCancel ''CODE.AWS'',
                    Report ''checking status...'']\<rparr>)"
    by (simp add: afterIterations_def getDevelopmentWorkspace_def call_def
        statusRemote_def offline_def world0_def ncalls_def emit_def workspaceArgs_def
        getProp_def deleteProp_def spread_def intoDevelopmentWorkspace_def)
  have observed_e: "observedStatus workspaceArgs (world0 (statusRemote [''STOPPED''])) (Suc 0) = Inl ''gone''"
    by (simp add: observedStatus_def statusRemote_def offline_def world0_def)
  from timeout_or_cancel_gives_no_result [where args = workspaceArgs and status = "''RUNNING''"
         and tm = None and k = 0 and n = 0 and ls = "JStr ''STOPPED''" and e = "''gone''"
         and w = "world0 (statusRemote [''STOPPED''])"
         and v = "\<lparr>remote = statusRemote [''STOPPED''], now = 0,
           trace = [Call GetDevelopmentWorkspace, ShowMessageWithCancel ''CODE.AWS'',
                    Report ''checking status...'']\<rparr>"]
       reached_e observed_e
  have e: "startEnvironmentWithProgress workspaceArgs ''RUNNING'' None (Suc 0)
       (world0 (statusRemote [''STOPPED'']))
     = (Inl (Remote ''gone''),
        \<lparr>remote = statusRemote [''STOPPED''], now = 0,
         trace = [Call GetDevelopmentWorkspace, ShowMessageWithCancel ''CODE.AWS'',
                  Report ''checking status...'', Call GetDevelopmentWorkspace]\<rparr>)"
    by (simp add: completed_def ncalls_def emit_def)
  have reached_f: "afterIterations workspaceArgs ''RUNNING'' None 0 (world0 (refusingRemote [''STOPPED'', ''STOPPED'']))
      = Some (JStr ''STOPPED'',
          \<lparr>remote = refusingRemote [''STOPPED'', ''STOPPED''], now = 0,
           trace = [Call GetDevelopmentWorkspace, ShowMessageWithCancel ''CODE.AWS'',
                    Report ''checking status...'']\<rparr>)"
    by (simp add: afterIterations_def getDevelopmentWorkspace_def call_def refusingRemote_def
        statusRemote_def offline_def world0_def ncalls_def emit_def workspaceArgs_def
        getProp_def deleteProp_def spread_def intoDevelopmentWorkspace_def)
  have observed_f: "observedStatus workspaceArgs (world0 (refusingRemote [''STOPPED'', ''STOPPED''])) (Suc 0)
      = Inr (JStr ''STOPPED'')"
    and refused: "startDevelopmentWorkspaceR (remote (world0 (refusingRemote [''STOPPED'', ''STOPPED''])))
                    0 workspaceArgs = Inl ''denied''"
    by (simp_all add: observedStatus_def refusingRemote_def statusRemote_def offline_def world0_def
        workspaceArgs_def getProp_def deleteProp_def spread_def)
  from timeout_or_cancel_gives_no_result [where args = workspaceArgs and status = "''RUNNING''"
         and tm = None and k = 0 and n = 0 and ls = "JStr ''STOPPED''" and e = "''denied''"
         and w = "world0 (refusingRemote [''STOPPED'', ''STOPPED''])"
         and v = "\<lparr>remote = refusingRemote [''STOPPED'', ''STOPPED''], now = 0,
           trace = [Call GetDevelopmentWorkspace, ShowMessageWithCancel ''CODE.AWS'',
                    Report ''checking status...'']\<rparr>"]
       reached_f observed_f refused
  have f: "startEnvironmentWithProgress workspaceArgs ''RUNNING'' None (Suc 0)
       (world0 (refusingRemote [''STOPPED'', ''STOPPED'']))
     = (Inl (Remote ''denied''),
        \<lparr>remote = refusingRemote [''STOPPED'', ''STOPPED''], now = 0,
         trace = [Call GetDevelopmentWorkspace, ShowMessageWithCancel ''CODE.AWS'',
                  Report ''checking status...'',
                  Call GetDevelopmentWorkspace, Report ''resuming environment...'',
                  Call StartDevelopmentWorkspace]\<rparr>)"
    by (simp add: completed_def ncalls_def emit_def)
  from timeout_or_cancel_gives_no_result [where args = workspaceArgs and status = "''RUNNING''"
         and tm = None and n = "Suc 0" and r = "Inl (Remote ''denied'')"
         and w = "world0 (refusingRemote [''STOPPED'', ''STOPPED''])"
         and w' = "\<lparr>remote = refusingRemote [''STOPPED'', ''STOPPED''], now = 0,
         trace = [Call GetDevelopmentWorkspace, ShowMessageWithCancel ''CODE.AWS'',
                  Report ''checking status...'',
                  Call GetDevelopmentWorkspace, Report ''resuming environment...'',
                  Call StartDevelopmentWorkspace]\<rparr>",
         THEN conjunct2, THEN conjunct2, THEN conjunct2, THEN conjunct2, THEN conjunct2, THEN conjunct2]
       f
  have g: "(\<exists>j. 0 < j \<and> j < Suc (Suc 0)
            \<and> observedStatus workspaceArgs (world0 (refusingRemote [''STOPPED'', ''STOPPED''])) j = Inl ''denied'')
      \<or> (\<exists>j. j < Suc 0
            \<and> startDevelopmentWorkspaceR (refusingRemote [''STOPPED'', ''STOPPED'']) j workspaceArgs
                = Inl ''denied'')"
    by (simp add: ncalls_def world0_def)
  from a b c d e f g show ?thesis by simp
qed

text \<open>
  C3 as stated fails when a status fetch of the loop is rejected: the run has seen
  neither RUNNING nor a status after STARTING, and it throws the remote error.
\<close>
theorem rejected_fetch_is_thrown_counterexample:
  "startEnvironmentWithProgress workspaceArgs ''RUNNING'' None (Suc (Suc (Suc 0)))
       (world0 (statusRemote [''STOPPED'']))
     = (Inl (Remote ''gone''),
        \<lparr>remote = statusRemote [''STOPPED''], now = 0,
         trace = [Call GetDevelopmentWorkspace, ShowMessageWithCancel ''CODE.AWS'',
                  Report ''checking status...'', Call GetDevelopmentWorkspace]\<rparr>)"
  by (simp add: startEnvironmentWithProgress_def getDevelopmentWorkspace_def call_def pollMde_fn_def
      waitTimeout_def completed_def statusRemote_def offline_def world0_def ncalls_def emit_def sleep_def
      workspaceArgs_def getProp_def deleteProp_def spread_def intoDevelopmentWorkspace_def)

end
